theory Spec2Isabelle
  imports Main "HOL-Library.Word" "HOL-Library.AList"
begin

section \<open>Values, errors and the JSON library\<close>

text \<open>
  A finite float64 is named by the shortest decimal numeral that reads back as it, the
  one Go prints for it: a sign, the digits without a trailing zero and a power of ten, so
  that \<open>Float64 False 15 (- 1)\<close> is 1.5. Zero has the digits 0 and the power 0. A term
  that is not such a numeral stands for no float.
\<close>

datatype float64 = Float64 (f_neg: bool) (f_digits: nat) (f_exp: int)

text \<open>
  A Go value of type \<^verbatim>\<open>any\<close> as it occurs inside \<^verbatim>\<open>map[string]any\<close>: nil, a bool, an
  integer of one of Go's integer types (\<open>GInt\<close>), a finite float64, the float64 NaN
  (\<open>GNaN\<close>, which \<^verbatim>\<open>json.Marshal\<close> rejects), a string (its bytes), a \<^verbatim>\<open>[]any\<close>, a
  \<^verbatim>\<open>map[string]any\<close>, and a nil slice (\<open>GNilList\<close>) or a nil map (\<open>GNilMap\<close>) held in the
  interface. Values of other Go types are not represented. A Go map is an association
  list with distinct keys, read with \<open>map_of\<close>; the order of the list has no meaning. A
  map that may be tested against nil is a \<open>gomap option\<close>.
\<close>

datatype goval = GNil | GBool bool | GInt int | GFloat float64 | GNaN | GStr string
  | GList "goval list" | GMap "(string \<times> goval) list" | GNilList | GNilMap

type_synonym gomap = "(string \<times> goval) list"

text \<open>
  A JSON document, the text that \<^verbatim>\<open>json.Marshal\<close> writes: \<open>JInt n\<close> is the numeral of the
  integer \<open>n\<close>, \<open>JFloat f\<close> the numeral of the float \<open>f\<close>.
\<close>

datatype json = JNull | JBool bool | JInt int | JFloat float64 | JString string
  | JArray "json list" | JObject "(string \<times> json) list"

text \<open>Go errors: a message, or \<^verbatim>\<open>fmt.Errorf("prefix: %w", err)\<close> around another error.\<close>

datatype error = Error string | Errorf string error

fun Error_text :: "error \<Rightarrow> string" where
  "Error_text (Error s) = s"
| "Error_text (Errorf p e) = p @ Error_text e"

subsection \<open>Strings: UTF-8\<close>

definition byte_of :: "char \<Rightarrow> nat" where
  "byte_of c = of_char c"

definition cont :: "char \<Rightarrow> bool" where
  "cont c = (0x80 \<le> byte_of c \<and> byte_of c \<le> 0xBF)"

text \<open>
  \<^verbatim>\<open>utf8.DecodeRuneInString\<close>: the number of bytes of the well-formed encoding at the
  start of the string, 0 if there is none (overlong forms, surrogates and code points
  above U+10FFFF are not well formed).
\<close>

fun rune_len :: "string \<Rightarrow> nat" where
  "rune_len [] = 0"
| "rune_len (a # s) =
     (let x = byte_of a in
      if x < 0x80 then 1
      else if 0xC2 \<le> x \<and> x \<le> 0xDF then
        (case s of b # _ \<Rightarrow> if cont b then 2 else 0 | _ \<Rightarrow> 0)
      else if 0xE0 \<le> x \<and> x \<le> 0xEF then
        (case s of
           b # c # _ \<Rightarrow>
             if (if x = 0xE0 then 0xA0 else 0x80) \<le> byte_of b
                \<and> byte_of b \<le> (if x = 0xED then 0x9F else 0xBF) \<and> cont c
             then 3 else 0
         | _ \<Rightarrow> 0)
      else if 0xF0 \<le> x \<and> x \<le> 0xF4 then
        (case s of
           b # c # d # _ \<Rightarrow>
             if (if x = 0xF0 then 0x90 else 0x80) \<le> byte_of b
                \<and> byte_of b \<le> (if x = 0xF4 then 0x8F else 0xBF) \<and> cont c \<and> cont d
             then 4 else 0
         | _ \<Rightarrow> 0)
      else 0)"

text \<open>\<^verbatim>\<open>utf8.ValidString\<close>.\<close>

function utf8_valid :: "string \<Rightarrow> bool" where
  "utf8_valid s =
     (if s = [] then True
      else if rune_len s = 0 then False
      else utf8_valid (drop (rune_len s) s))"
  by pat_completeness auto

termination
  by (relation "measure length") auto

declare utf8_valid.simps [simp del]

text \<open>
  What a string is after \<^verbatim>\<open>json.Marshal\<close> and \<^verbatim>\<open>json.Unmarshal\<close>: every byte that does not
  start a well-formed encoding has become U+FFFD.
\<close>

function utf8_coerce :: "string \<Rightarrow> string" where
  "utf8_coerce s =
     (if s = [] then []
      else if rune_len s = 0 then [CHR 0xEF, CHR 0xBF, CHR 0xBD] @ utf8_coerce (tl s)
      else take (rune_len s) s @ utf8_coerce (drop (rune_len s) s))"
  by pat_completeness auto

termination
  by (relation "measure length") auto

declare utf8_coerce.simps [simp del]

subsection \<open>Numbers: integers read back as float64\<close>

definition digit_char :: "nat \<Rightarrow> char" where
  "digit_char d = ''0123456789abcdef'' ! d"

fun nat_text :: "nat \<Rightarrow> string" where
  "nat_text n = (if n < 10 then [digit_char n] else nat_text (n div 10) @ [digit_char (n mod 10)])"

declare nat_text.simps [simp del]

definition int_text :: "int \<Rightarrow> string" where
  "int_text i = (if i < 0 then CHR ''-'' # nat_text (nat (- i)) else nat_text (nat i))"

fun bit_len :: "nat \<Rightarrow> nat" where
  "bit_len n = (if n = 0 then 0 else Suc (bit_len (n div 2)))"

declare bit_len.simps [simp del]

text \<open>
  The float64 nearest to a natural number, as a natural number: 53 bits of mantissa,
  ties to the even mantissa.
\<close>

definition round53 :: "nat \<Rightarrow> nat" where
  "round53 a =
     (if bit_len a \<le> 53 then a
      else
        (let k = bit_len a - 53; q = a div 2 ^ k; r = a mod 2 ^ k; h = 2 ^ (k - 1)
         in (if h < r \<or> (r = h \<and> odd q) then q + 1 else q) * 2 ^ k))"

text \<open>
  The shortest numeral of a float \<open>v\<close> that is a natural number: the multiple of the
  highest power of ten that still reads back as \<open>v\<close>, the nearer one of two, the even one
  of two that are as near.
\<close>

fun shortest :: "nat \<Rightarrow> nat \<Rightarrow> nat" where
  "shortest v 0 = v"
| "shortest v (Suc j) =
     (let p = 10 ^ Suc j; lo = (v div p) * p; hi = lo + p;
          oklo = (0 < lo \<and> round53 lo = v); okhi = (round53 hi = v)
      in if oklo \<and> okhi then
           (if 2 * (v - lo) < p \<or> (2 * (v - lo) = p \<and> even (v div p)) then lo else hi)
         else if oklo then lo
         else if okhi then hi
         else shortest v j)"

fun strip_zeros :: "nat \<Rightarrow> nat \<times> int" where
  "strip_zeros n =
     (if n = 0 \<or> n mod 10 \<noteq> 0 then (n, 0)
      else (case strip_zeros (n div 10) of (d, e) \<Rightarrow> (d, e + 1)))"

declare strip_zeros.simps [simp del]

text \<open>
  The float64 that \<^verbatim>\<open>json.Unmarshal\<close> stores for the numeral of an integer (Go integers
  have at most 64 bits, so the numeral is in the range of float64).
\<close>

definition float64_of_int :: "int \<Rightarrow> float64" where
  "float64_of_int n =
     (let v = round53 (nat \<bar>n\<bar>)
      in case strip_zeros (shortest v (length (nat_text v))) of
           (d, e) \<Rightarrow> Float64 (n < 0) d e)"

subsection \<open>Marshal and Unmarshal\<close>

text \<open>\<^verbatim>\<open>json.Marshal\<close> fails exactly on values that contain an unsupported value.\<close>

fun json_ok :: "goval \<Rightarrow> bool" where
  "json_ok GNaN = False"
| "json_ok (GList xs) = (\<forall>x\<in>set xs. json_ok x)"
| "json_ok (GMap kvs) = (\<forall>kv\<in>set kvs. json_ok (snd kv))"
| "json_ok _ = True"

text \<open>
  The document that \<^verbatim>\<open>json.Marshal\<close> writes for a value it supports: strings and keys
  with their ill-formed bytes replaced, nil slices and nil maps as null. Keys that the
  replacement makes equal are not merged.
\<close>

fun json_encode :: "goval \<Rightarrow> json" where
  "json_encode GNil = JNull"
| "json_encode (GBool b) = JBool b"
| "json_encode (GInt n) = JInt n"
| "json_encode (GFloat f) = JFloat f"
| "json_encode GNaN = JNull"
| "json_encode (GStr s) = JString (utf8_coerce s)"
| "json_encode (GList xs) = JArray (map json_encode xs)"
| "json_encode (GMap kvs) =
     JObject (map (\<lambda>kv. (utf8_coerce (fst kv), json_encode (snd kv))) kvs)"
| "json_encode GNilList = JNull"
| "json_encode GNilMap = JNull"

definition json_Marshal :: "goval \<Rightarrow> error + json" where
  "json_Marshal v =
     (if json_ok v then Inr (json_encode v) else Inl (Error ''json: unsupported value: NaN''))"

text \<open>
  \<^verbatim>\<open>json.Unmarshal\<close> into a variable of type \<^verbatim>\<open>any\<close>: every number becomes a float64,
  an array a \<^verbatim>\<open>[]any\<close> and an object a \<^verbatim>\<open>map[string]any\<close>, neither of them nil.
\<close>

fun json_decode :: "json \<Rightarrow> goval" where
  "json_decode JNull = GNil"
| "json_decode (JBool b) = GBool b"
| "json_decode (JInt n) = GFloat (float64_of_int n)"
| "json_decode (JFloat f) = GFloat f"
| "json_decode (JString s) = GStr s"
| "json_decode (JArray xs) = GList (map json_decode xs)"
| "json_decode (JObject kvs) = GMap (map (\<lambda>kv. (fst kv, json_decode (snd kv))) kvs)"

text \<open>\<^verbatim>\<open>json.Unmarshal\<close> into a \<^verbatim>\<open>map[string]any\<close> variable that starts nil.\<close>

fun json_Unmarshal_map :: "json \<Rightarrow> error + gomap option" where
  "json_Unmarshal_map (JObject kvs) =
     Inr (Some (map (\<lambda>kv. (fst kv, json_decode (snd kv))) kvs))"
| "json_Unmarshal_map JNull = Inr None"
| "json_Unmarshal_map _ =
     Inl (Error ''json: cannot unmarshal value into Go value of type map[string]interface {}'')"

text \<open>
  \<^verbatim>\<open>toMapStructure\<close>: marshal to JSON, unmarshal into a map. The argument is the outcome
  of \<^verbatim>\<open>json.Marshal\<close> on the data, which is a struct at some calls and a map at others.
\<close>

definition toMapStructure :: "error + json \<Rightarrow> error + gomap option" where
  "toMapStructure marshalled =
     (case marshalled of
        Inl e \<Rightarrow> Inl e
      | Inr bytes \<Rightarrow> json_Unmarshal_map bytes)"

section \<open>Content parts of the local runtime (genai)\<close>

text \<open>The bytes of a blob are a slice, which may be nil (\<open>None\<close>).\<close>

record Blob =
  DisplayName :: string
  Data :: "8 word list option"
  MIMEType :: string

record FileData =
  DisplayName :: string
  FileURI :: string
  MIMEType :: string

record FunctionCall =
  ID :: string
  Args :: "gomap option"
  Name :: string

record FunctionResponse =
  ID :: string
  Name :: string
  Response :: "gomap option"
  Scheduling :: string

record ExecutableCode =
  Code :: string
  Language :: string

record CodeExecutionResult =
  Outcome :: string
  Output :: string

text \<open>
  \<^verbatim>\<open>genai.Part\<close> is a struct of optional fields, not a tagged union: the code decides the
  kind of a part by testing the fields in a fixed order. Video metadata is kept as the
  JSON object the library marshals it to.
\<close>

record Part =
  Text :: string
  Thought :: bool
  InlineData :: "Blob option"
  FileData :: "FileData option"
  FunctionCall :: "FunctionCall option"
  FunctionResponse :: "FunctionResponse option"
  ExecutableCode :: "ExecutableCode option"
  CodeExecutionResult :: "CodeExecutionResult option"
  VideoMetadata :: "(string \<times> json) list option"

definition emptyPart :: Part where
  "emptyPart = \<lparr>Text = [], Thought = False, InlineData = None, FileData = None,
     FunctionCall = None, FunctionResponse = None, ExecutableCode = None,
     CodeExecutionResult = None, VideoMetadata = None\<rparr>"

definition NewPartFromText :: "string \<Rightarrow> Part" where
  "NewPartFromText t = emptyPart\<lparr>Text := t\<rparr>"

text \<open>
  The JSON objects of the structs, by their field tags. Every field is \<^verbatim>\<open>omitempty\<close>: an
  empty string and a map without entries, nil or not, are left out. Marshalling a struct
  fails when marshalling its map does.
\<close>

definition omitempty :: "(string \<times> json) list \<Rightarrow> (string \<times> json) list" where
  "omitempty kvs =
     filter (\<lambda>kv. snd kv \<noteq> JString [] \<and> snd kv \<noteq> JObject [] \<and> snd kv \<noteq> JNull) kvs"

definition map_json :: "gomap option \<Rightarrow> error + json" where
  "map_json m = (case m of None \<Rightarrow> Inr JNull | Some kvs \<Rightarrow> json_Marshal (GMap kvs))"

definition FunctionCall_json :: "FunctionCall \<Rightarrow> error + json" where
  "FunctionCall_json c =
     (case map_json (Args c) of
        Inl e \<Rightarrow> Inl e
      | Inr a \<Rightarrow>
          Inr (JObject (omitempty
            [(''id'', JString (utf8_coerce (FunctionCall.ID c))), (''args'', a),
             (''name'', JString (utf8_coerce (FunctionCall.Name c)))])))"

definition FunctionResponse_json :: "FunctionResponse \<Rightarrow> error + json" where
  "FunctionResponse_json r =
     (case map_json (Response r) of
        Inl e \<Rightarrow> Inl e
      | Inr a \<Rightarrow>
          Inr (JObject (omitempty
            [(''scheduling'', JString (utf8_coerce (Scheduling r))),
             (''id'', JString (utf8_coerce (FunctionResponse.ID r))),
             (''name'', JString (utf8_coerce (FunctionResponse.Name r))),
             (''response'', a)])))"

definition ExecutableCode_json :: "ExecutableCode \<Rightarrow> error + json" where
  "ExecutableCode_json c =
     Inr (JObject (omitempty
       [(''code'', JString (utf8_coerce (Code c))),
        (''language'', JString (utf8_coerce (Language c)))]))"

definition CodeExecutionResult_json :: "CodeExecutionResult \<Rightarrow> error + json" where
  "CodeExecutionResult_json r =
     Inr (JObject (omitempty
       [(''outcome'', JString (utf8_coerce (Outcome r))),
        (''output'', JString (utf8_coerce (Output r)))]))"

section \<open>Base64 (the standard, padded encoding)\<close>

definition b64chars :: string where
  "b64chars = ''ABCDEFGHIJKLMNOPQRSTUVWXYZabcdefghijklmnopqrstuvwxyz0123456789+/''"

definition b64char :: "nat \<Rightarrow> char" where
  "b64char n = b64chars ! n"

fun index_of :: "char \<Rightarrow> string \<Rightarrow> nat option" where
  "index_of c [] = None"
| "index_of c (x # xs) = (if c = x then Some 0 else map_option Suc (index_of c xs))"

definition b64val :: "char \<Rightarrow> nat option" where
  "b64val c = index_of c b64chars"

fun b64enc :: "nat list \<Rightarrow> string" where
  "b64enc [] = []"
| "b64enc [a] = [b64char (a div 4), b64char ((a mod 4) * 16), CHR ''='', CHR ''='']"
| "b64enc [a, b] =
     [b64char (a div 4), b64char ((a mod 4) * 16 + b div 16),
      b64char ((b mod 16) * 4), CHR ''='']"
| "b64enc (a # b # c # r) =
     [b64char (a div 4), b64char ((a mod 4) * 16 + b div 16),
      b64char ((b mod 16) * 4 + c div 64), b64char (c mod 64)] @ b64enc r"

text \<open>
  Decoding reads four characters at a time; padding is accepted in the last group only,
  and the unused low bits of a padded group are not checked.
\<close>

fun b64dec :: "string \<Rightarrow> nat list option" where
  "b64dec [] = Some []"
| "b64dec (c1 # c2 # c3 # c4 # r) =
     (if r = [] \<and> c4 = CHR ''='' then
        (if c3 = CHR ''='' then
           (case (b64val c1, b64val c2) of
              (Some x, Some y) \<Rightarrow> Some [x * 4 + y div 16]
            | _ \<Rightarrow> None)
         else
           (case (b64val c1, b64val c2, b64val c3) of
              (Some x, Some y, Some z) \<Rightarrow> Some [x * 4 + y div 16, (y mod 16) * 16 + z div 4]
            | _ \<Rightarrow> None))
      else
        (case (b64val c1, b64val c2, b64val c3, b64val c4) of
           (Some x, Some y, Some z, Some w) \<Rightarrow>
             map_option
               (\<lambda>rest. [x * 4 + y div 16, (y mod 16) * 16 + z div 4, (z mod 4) * 64 + w] @ rest)
               (b64dec r)
         | _ \<Rightarrow> None))"
| "b64dec _ = None"

text \<open>A nil slice is encoded as a slice without bytes is.\<close>

definition EncodeToString :: "8 word list option \<Rightarrow> string" where
  "EncodeToString src = b64enc (map unat (case src of None \<Rightarrow> [] | Some bs \<Rightarrow> bs))"

text \<open>
  \<^verbatim>\<open>DecodeString\<close> skips carriage returns and line feeds; the slice it returns is never
  nil.
\<close>

definition DecodeString :: "string \<Rightarrow> error + 8 word list" where
  "DecodeString s =
     (case b64dec (filter (\<lambda>c. c \<noteq> CHR 0x0D \<and> c \<noteq> CHR 0x0A) s) of
        None \<Rightarrow> Inl (Error ''illegal base64 data'')
      | Some ns \<Rightarrow> Inr (map of_nat ns))"

section \<open>Wire parts (a2a)\<close>

datatype FileContent =
    FileBytes (fb_Name: string) (fb_MimeType: string) (fb_Bytes: string)
  | FileURI (fu_Name: string) (fu_MimeType: string) (fu_URI: string)
  | NoFile

text \<open>
  The three part kinds of the wire protocol, each with its metadata map; \<open>OtherPart\<close>
  stands for any other value of the \<^verbatim>\<open>a2a.Part\<close> interface.
\<close>

datatype a2a_Part =
    TextPart string "gomap option"
  | FilePart FileContent "gomap option"
  | DataPart "gomap option" "gomap option"
  | OtherPart

definition toMetaKey :: "string \<Rightarrow> string" where
  "toMetaKey key = ''adk_'' @ key"

definition a2aDataPartMetaTypeKey :: string where
  "a2aDataPartMetaTypeKey = toMetaKey ''type''"

definition a2aDataPartMetaLongRunningKey :: string where
  "a2aDataPartMetaLongRunningKey = toMetaKey ''is_long_running''"

definition a2aDataPartTypeFunctionCall :: string where
  "a2aDataPartTypeFunctionCall = ''function_call''"

definition a2aDataPartTypeFunctionResponse :: string where
  "a2aDataPartTypeFunctionResponse = ''function_response''"

definition a2aDataPartTypeCodeExecResult :: string where
  "a2aDataPartTypeCodeExecResult = ''code_execution_result''"

definition a2aDataPartTypeCodeExecutableCode :: string where
  "a2aDataPartTypeCodeExecutableCode = ''executable_code''"

section \<open>JSON text and formatted output\<close>

text \<open>Go compares strings byte by byte; map keys are written in that order.\<close>

fun str_le :: "string \<Rightarrow> string \<Rightarrow> bool" where
  "str_le [] ys = True"
| "str_le (x # xs) [] = False"
| "str_le (x # xs) (y # ys) =
     ((of_char x :: nat) < of_char y \<or> (x = y \<and> str_le xs ys))"

fun insert_key :: "string \<times> 'a \<Rightarrow> (string \<times> 'a) list \<Rightarrow> (string \<times> 'a) list" where
  "insert_key kv [] = [kv]"
| "insert_key kv (x # xs) =
     (if str_le (fst kv) (fst x) then kv # x # xs else x # insert_key kv xs)"

definition sort_keys :: "(string \<times> 'a) list \<Rightarrow> (string \<times> 'a) list" where
  "sort_keys kvs = foldr insert_key kvs []"

fun join :: "string \<Rightarrow> string list \<Rightarrow> string" where
  "join sep [] = []"
| "join sep [x] = x"
| "join sep (x # y # ys) = x @ sep @ join sep (y # ys)"

text \<open>
  The numerals of \<^verbatim>\<open>strconv\<close> for a float, from its shortest digits: \<open>float_dp\<close> is the
  position of the decimal point after the first \<open>float_dp\<close> digits.
\<close>

definition float_ds :: "float64 \<Rightarrow> string" where
  "float_ds f = (if f_digits f = 0 then [] else nat_text (f_digits f))"

definition float_dp :: "float64 \<Rightarrow> int" where
  "float_dp f = int (length (float_ds f)) + f_exp f"

text \<open>The format \<^verbatim>\<open>'f'\<close>: no exponent.\<close>

definition fmtF :: "float64 \<Rightarrow> string" where
  "fmtF f =
     (let ds = float_ds f; dp = float_dp f
      in (if f_neg f then ''-'' else [])
         @ (if 0 < dp then take (nat dp) ds @ replicate (nat dp - length ds) (CHR ''0'')
            else ''0'')
         @ (if dp < int (length ds)
            then ''.'' @ replicate (nat (- dp)) (CHR ''0'') @ drop (nat dp) ds
            else []))"

text \<open>
  The format \<^verbatim>\<open>'e'\<close>: one digit before the point; the exponent has two digits at least
  when \<open>pad\<close> is set.
\<close>

definition fmtE :: "bool \<Rightarrow> float64 \<Rightarrow> string" where
  "fmtE pad f =
     (let ds = float_ds f; ex = (if ds = [] then 0 else float_dp f - 1)
      in (if f_neg f then ''-'' else [])
         @ (case ds of [] \<Rightarrow> ''0'' | c # ds' \<Rightarrow> c # (if ds' = [] then [] else ''.'' @ ds'))
         @ ''e'' @ (if ex < 0 then ''-'' else ''+'')
         @ (if pad \<and> \<bar>ex\<bar> < 10 then ''0'' else []) @ nat_text (nat \<bar>ex\<bar>))"

text \<open>
  A float under the \<^verbatim>\<open>%v\<close> verb of \<^verbatim>\<open>fmt\<close> (the format \<^verbatim>\<open>'g'\<close> with the shortest digits),
  and in the output of \<^verbatim>\<open>json.Marshal\<close>.
\<close>

definition fmt_float :: "float64 \<Rightarrow> string" where
  "fmt_float f =
     (if float_ds f \<noteq> [] \<and> (float_dp f - 1 < - 4 \<or> 6 \<le> float_dp f - 1) then fmtE True f
      else fmtF f)"

definition json_float :: "float64 \<Rightarrow> string" where
  "json_float f =
     (if float_ds f \<noteq> [] \<and> (float_dp f - 1 < - 6 \<or> 21 \<le> float_dp f - 1) then fmtE False f
      else fmtF f)"

text \<open>
  String escaping of \<^verbatim>\<open>json.Marshal\<close>: quotes, backslashes, control characters, the HTML
  characters and the line separators U+2028 and U+2029; other bytes are copied.
\<close>

definition json_escape_char :: "char \<Rightarrow> string" where
  "json_escape_char c =
     (if c = CHR 0x22 then [CHR 0x5C, CHR 0x22]
      else if c = CHR 0x5C then [CHR 0x5C, CHR 0x5C]
      else if c = CHR 0x0A then [CHR 0x5C, CHR ''n'']
      else if c = CHR 0x0D then [CHR 0x5C, CHR ''r'']
      else if c = CHR 0x09 then [CHR 0x5C, CHR ''t'']
      else if c = CHR 0x08 then [CHR 0x5C, CHR ''b'']
      else if c = CHR 0x0C then [CHR 0x5C, CHR ''f'']
      else if (of_char c :: nat) < 32 \<or> c = CHR ''<'' \<or> c = CHR ''>'' \<or> c = CHR ''&'' then
        [CHR 0x5C, CHR ''u'', CHR ''0'', CHR ''0'',
         digit_char (of_char c div 16), digit_char (of_char c mod 16)]
      else [c])"

fun json_escape :: "string \<Rightarrow> string" where
  "json_escape (a # b # c # s) =
     (if a = CHR 0xE2 \<and> b = CHR 0x80 \<and> (c = CHR 0xA8 \<or> c = CHR 0xA9) then
        [CHR 0x5C, CHR ''u'', CHR ''2'', CHR ''0'', CHR ''2'',
         (if c = CHR 0xA8 then CHR ''8'' else CHR ''9'')] @ json_escape s
      else json_escape_char a @ json_escape (b # c # s))"
| "json_escape (a # s) = json_escape_char a @ json_escape s"
| "json_escape [] = []"

definition json_string :: "string \<Rightarrow> string" where
  "json_string s = [CHR 0x22] @ json_escape s @ [CHR 0x22]"

text \<open>The text of a document that was marshalled from maps: the keys are in order.\<close>

fun json_text :: "json \<Rightarrow> string" where
  "json_text JNull = ''null''"
| "json_text (JBool b) = (if b then ''true'' else ''false'')"
| "json_text (JInt i) = int_text i"
| "json_text (JFloat f) = json_float f"
| "json_text (JString s) = json_string s"
| "json_text (JArray xs) = ''['' @ join '','' (map json_text xs) @ '']''"
| "json_text (JObject kvs) =
     ''{'' @ join '','' (map (\<lambda>kv. json_string (fst kv) @ '':'' @ snd kv)
                         (sort_keys (map (\<lambda>kv. (fst kv, json_text (snd kv))) kvs))) @ ''}''"

text \<open>The \<^verbatim>\<open>%v\<close> verb of \<^verbatim>\<open>fmt\<close> on the values of a map.\<close>

fun fmt_v :: "goval \<Rightarrow> string" where
  "fmt_v GNil = ''<nil>''"
| "fmt_v (GBool b) = (if b then ''true'' else ''false'')"
| "fmt_v (GInt i) = int_text i"
| "fmt_v (GFloat f) = fmt_float f"
| "fmt_v GNaN = ''NaN''"
| "fmt_v (GStr s) = s"
| "fmt_v (GList xs) = ''['' @ join '' '' (map fmt_v xs) @ '']''"
| "fmt_v (GMap kvs) =
     ''map['' @ join '' '' (map (\<lambda>kv. fst kv @ '':'' @ snd kv)
                         (sort_keys (map (\<lambda>kv. (fst kv, fmt_v (snd kv))) kvs))) @ '']''"
| "fmt_v GNilList = ''[]''"
| "fmt_v GNilMap = ''map[]''"

text \<open>A map field under \<^verbatim>\<open>%v\<close>: a nil map prints as an empty one.\<close>

definition fmt_map :: "gomap option \<Rightarrow> string" where
  "fmt_map m = fmt_v (case m of None \<Rightarrow> GNilMap | Some kvs \<Rightarrow> GMap kvs)"

text \<open>
  \<^verbatim>\<open>json.Unmarshal\<close> into a struct: a missing key or a null leaves the field at its zero
  value, a value of another JSON kind is a type error. A map field is filled by an
  object, which makes it a map that is not nil.
\<close>

definition json_type_error :: error where
  "json_type_error = Error ''json: cannot unmarshal value into Go struct field''"

definition string_field :: "(string \<times> json) list \<Rightarrow> string \<Rightarrow> error + string" where
  "string_field m k =
     (case map_of m k of
        None \<Rightarrow> Inr []
      | Some JNull \<Rightarrow> Inr []
      | Some (JString s) \<Rightarrow> Inr s
      | Some _ \<Rightarrow> Inl json_type_error)"

definition map_field :: "(string \<times> json) list \<Rightarrow> string \<Rightarrow> error + gomap option" where
  "map_field m k =
     (case map_of m k of
        None \<Rightarrow> Inr None
      | Some JNull \<Rightarrow> Inr None
      | Some (JObject kvs) \<Rightarrow> Inr (Some (map (\<lambda>kv. (fst kv, json_decode (snd kv))) kvs))
      | Some _ \<Rightarrow> Inl json_type_error)"

definition json_object :: "json \<Rightarrow> error + (string \<times> json) list" where
  "json_object v =
     (case v of JObject kvs \<Rightarrow> Inr kvs | JNull \<Rightarrow> Inr [] | _ \<Rightarrow> Inl json_type_error)"

definition FunctionCall_of_json :: "json \<Rightarrow> error + FunctionCall" where
  "FunctionCall_of_json v =
     (case json_object v of Inl e \<Rightarrow> Inl e | Inr m \<Rightarrow>
      (case string_field m ''id'' of Inl e \<Rightarrow> Inl e | Inr i \<Rightarrow>
      (case map_field m ''args'' of Inl e \<Rightarrow> Inl e | Inr a \<Rightarrow>
      (case string_field m ''name'' of Inl e \<Rightarrow> Inl e | Inr n \<Rightarrow>
         Inr \<lparr>FunctionCall.ID = i, Args = a, FunctionCall.Name = n\<rparr>))))"

definition FunctionResponse_of_json :: "json \<Rightarrow> error + FunctionResponse" where
  "FunctionResponse_of_json v =
     (case json_object v of Inl e \<Rightarrow> Inl e | Inr m \<Rightarrow>
      (case string_field m ''scheduling'' of Inl e \<Rightarrow> Inl e | Inr s \<Rightarrow>
      (case string_field m ''id'' of Inl e \<Rightarrow> Inl e | Inr i \<Rightarrow>
      (case string_field m ''name'' of Inl e \<Rightarrow> Inl e | Inr n \<Rightarrow>
      (case map_field m ''response'' of Inl e \<Rightarrow> Inl e | Inr r \<Rightarrow>
         Inr \<lparr>FunctionResponse.ID = i, FunctionResponse.Name = n, Response = r,
              Scheduling = s\<rparr>)))))"

definition ExecutableCode_of_json :: "json \<Rightarrow> error + ExecutableCode" where
  "ExecutableCode_of_json v =
     (case json_object v of Inl e \<Rightarrow> Inl e | Inr m \<Rightarrow>
      (case string_field m ''code'' of Inl e \<Rightarrow> Inl e | Inr c \<Rightarrow>
      (case string_field m ''language'' of Inl e \<Rightarrow> Inl e | Inr l \<Rightarrow>
         Inr \<lparr>Code = c, Language = l\<rparr>)))"

definition CodeExecutionResult_of_json :: "json \<Rightarrow> error + CodeExecutionResult" where
  "CodeExecutionResult_of_json v =
     (case json_object v of Inl e \<Rightarrow> Inl e | Inr m \<Rightarrow>
      (case string_field m ''outcome'' of Inl e \<Rightarrow> Inl e | Inr oc \<Rightarrow>
      (case string_field m ''output'' of Inl e \<Rightarrow> Inl e | Inr ou \<Rightarrow>
         Inr \<lparr>Outcome = oc, Output = ou\<rparr>)))"

section \<open>The part codec (parts.go)\<close>

definition goval_of_map :: "gomap option \<Rightarrow> goval" where
  "goval_of_map m = (case m of None \<Rightarrow> GNilMap | Some kvs \<Rightarrow> GMap kvs)"

definition toA2AFilePart :: "Part \<Rightarrow> error + a2a_Part" where
  "toA2AFilePart v =
     (if FileData v = None \<and> InlineData v = None then Inl (Error ''not a file part'')
      else
        (case FileData v of
           Some fd \<Rightarrow>
             Inr (FilePart (FileURI (FileData.DisplayName fd) (FileData.MIMEType fd) (FileData.FileURI fd))
                    None)
         | None \<Rightarrow>
             (let blob = the (InlineData v);
                  file = FileBytes (Blob.DisplayName blob) (Blob.MIMEType blob)
                           (EncodeToString (Data blob))
              in case VideoMetadata v of
                   None \<Rightarrow> Inr (FilePart file None)
                 | Some vm \<Rightarrow>
                     (case toMapStructure (Inr (JObject vm)) of
                        Inl e \<Rightarrow> Inl e
                      | Inr data \<Rightarrow>
                          Inr (FilePart file (Some [(''video_metadata'', goval_of_map data)]))))))"

definition toA2ADataPart :: "Part \<Rightarrow> string list \<Rightarrow> error + a2a_Part" where
  "toA2ADataPart part longRunningToolIDs =
     (case CodeExecutionResult part of
        Some r \<Rightarrow>
          (case toMapStructure (CodeExecutionResult_json r) of
             Inl e \<Rightarrow> Inl e
           | Inr data \<Rightarrow>
               Inr (DataPart data
                      (Some [(a2aDataPartMetaTypeKey, GStr a2aDataPartTypeCodeExecResult)])))
      | None \<Rightarrow>
     (case FunctionResponse part of
        Some r \<Rightarrow>
          (case toMapStructure (FunctionResponse_json r) of
             Inl e \<Rightarrow> Inl e
           | Inr data \<Rightarrow>
               Inr (DataPart data
                      (Some [(a2aDataPartMetaTypeKey, GStr a2aDataPartTypeFunctionResponse)])))
      | None \<Rightarrow>
     (case ExecutableCode part of
        Some c \<Rightarrow>
          (case toMapStructure (ExecutableCode_json c) of
             Inl e \<Rightarrow> Inl e
           | Inr data \<Rightarrow>
               Inr (DataPart data
                      (Some [(a2aDataPartMetaTypeKey, GStr a2aDataPartTypeCodeExecutableCode)])))
      | None \<Rightarrow>
     (case FunctionCall part of
        Some c \<Rightarrow>
          (case toMapStructure (FunctionCall_json c) of
             Inl e \<Rightarrow> Inl e
           | Inr data \<Rightarrow>
               Inr (DataPart data
                      (Some [(a2aDataPartMetaTypeKey, GStr a2aDataPartTypeFunctionCall),
                             (a2aDataPartMetaLongRunningKey,
                              GBool (FunctionCall.ID c \<in> set longRunningToolIDs))])))
      | None \<Rightarrow> Inr (DataPart (Some []) None)))))"

text \<open>One iteration of the loop of \<^verbatim>\<open>toA2AParts\<close>.\<close>

definition toA2APart :: "Part \<Rightarrow> string list \<Rightarrow> error + a2a_Part" where
  "toA2APart part longRunningToolIDs =
     (if Text part \<noteq> [] then
        Inr (TextPart (Text part)
               (if Thought part then Some [(toMetaKey ''thought'', GBool True)] else None))
      else if InlineData part \<noteq> None \<or> FileData part \<noteq> None then toA2AFilePart part
      else toA2ADataPart part longRunningToolIDs)"

fun toA2AParts :: "Part list \<Rightarrow> string list \<Rightarrow> error + a2a_Part list" where
  "toA2AParts [] longRunningToolIDs = Inr []"
| "toA2AParts (part # parts) longRunningToolIDs =
     (case toA2APart part longRunningToolIDs of
        Inl e \<Rightarrow> Inl e
      | Inr r \<Rightarrow>
          (case toA2AParts parts longRunningToolIDs of
             Inl e \<Rightarrow> Inl e
           | Inr rs \<Rightarrow> Inr (r # rs)))"

definition toGenAIFilePart :: "FileContent \<Rightarrow> error + Part" where
  "toGenAIFilePart file =
     (case file of
        FileBytes name mime bytes \<Rightarrow>
          (case DecodeString bytes of
             Inl e \<Rightarrow> Inl e
           | Inr bs \<Rightarrow>
               Inr (emptyPart\<lparr>InlineData :=
                      Some \<lparr>Blob.DisplayName = name, Data = Some bs, Blob.MIMEType = mime\<rparr>\<rparr>))
      | FileURI name mime uri \<Rightarrow>
          Inr (emptyPart\<lparr>FileData :=
                 Some \<lparr>FileData.DisplayName = name, FileData.FileURI = uri,
                        FileData.MIMEType = mime\<rparr>\<rparr>)
      | NoFile \<Rightarrow> Inl (Error ''unknown file content type''))"

definition toGenAITextPart :: "gomap option \<Rightarrow> error + Part" where
  "toGenAITextPart data =
     (case json_Marshal (goval_of_map data) of
        Inl e \<Rightarrow> Inl e
      | Inr bytes \<Rightarrow> Inr (emptyPart\<lparr>Text := json_text bytes\<rparr>))"

definition toGenAIDataPart :: "gomap option \<Rightarrow> gomap option \<Rightarrow> error + Part" where
  "toGenAIDataPart data metadata =
     (case metadata of
        None \<Rightarrow> toGenAITextPart data
      | Some md \<Rightarrow>
     (case map_of md a2aDataPartMetaTypeKey of
        None \<Rightarrow> toGenAITextPart data
      | Some adkMetaType \<Rightarrow>
     (case json_Marshal (goval_of_map data) of
        Inl e \<Rightarrow> Inl e
      | Inr bytes \<Rightarrow>
          (if adkMetaType = GStr a2aDataPartTypeCodeExecResult then
             (case CodeExecutionResult_of_json bytes of
                Inl e \<Rightarrow> Inl e
              | Inr val \<Rightarrow> Inr (emptyPart\<lparr>CodeExecutionResult := Some val\<rparr>))
           else if adkMetaType = GStr a2aDataPartTypeFunctionCall then
             (case FunctionCall_of_json bytes of
                Inl e \<Rightarrow> Inl e
              | Inr val \<Rightarrow> Inr (emptyPart\<lparr>FunctionCall := Some val\<rparr>))
           else if adkMetaType = GStr a2aDataPartTypeCodeExecutableCode then
             (case ExecutableCode_of_json bytes of
                Inl e \<Rightarrow> Inl e
              | Inr val \<Rightarrow> Inr (emptyPart\<lparr>ExecutableCode := Some val\<rparr>))
           else if adkMetaType = GStr a2aDataPartTypeFunctionResponse then
             (case FunctionResponse_of_json bytes of
                Inl e \<Rightarrow> Inl e
              | Inr val \<Rightarrow> Inr (emptyPart\<lparr>FunctionResponse := Some val\<rparr>))
           else Inr (emptyPart\<lparr>Text := json_text bytes\<rparr>)))))"

text \<open>One iteration of the loop of \<^verbatim>\<open>toGenAIParts\<close>.\<close>

definition toGenAIPart :: "a2a_Part \<Rightarrow> error + Part" where
  "toGenAIPart part =
     (case part of
        TextPart text metadata \<Rightarrow>
          (let r = NewPartFromText text
           in case metadata of
                None \<Rightarrow> Inr r
              | Some md \<Rightarrow>
                  (case map_of md (toMetaKey ''thought'') of
                     Some (GBool thought) \<Rightarrow> Inr (r\<lparr>Thought := thought\<rparr>)
                   | _ \<Rightarrow> Inr r))
      | DataPart data metadata \<Rightarrow> toGenAIDataPart data metadata
      | FilePart file metadata \<Rightarrow> toGenAIFilePart file
      | OtherPart \<Rightarrow> Inl (Error ''unknown part type''))"

fun toGenAIParts :: "a2a_Part list \<Rightarrow> error + Part list" where
  "toGenAIParts [] = Inr []"
| "toGenAIParts (part # parts) =
     (case toGenAIPart part of
        Inl e \<Rightarrow> Inl e
      | Inr r \<Rightarrow>
          (case toGenAIParts parts of
             Inl e \<Rightarrow> Inl e
           | Inr rs \<Rightarrow> Inr (r # rs)))"

section \<open>Session events and wire events\<close>

definition RoleUser :: string where "RoleUser = ''user''"
definition RoleModel :: string where "RoleModel = ''model''"

record Content =
  Parts :: "Part list"
  Role :: string

definition NewContentFromParts :: "Part list \<Rightarrow> string \<Rightarrow> Content" where
  "NewContentFromParts ps r = \<lparr>Content.Parts = ps, Content.Role = r\<rparr>"

text \<open>
  A session event with the fields of its embedded model response. The random
  identifier and the timestamp of an event are left out.
\<close>

record Event =
  Author :: string
  InvocationID :: string
  Branch :: string
  Content :: "Content option"
  CustomMetadata :: "gomap option"
  ErrorCode :: string
  ErrorMessage :: string
  TurnComplete :: bool
  GroundingMetadata :: "goval option"
  LongRunningToolIDs :: "string list"

definition NewEvent :: "string \<Rightarrow> Event" where
  "NewEvent invocationID =
     \<lparr>Author = [], InvocationID = invocationID, Branch = [], Content = None,
      CustomMetadata = None, ErrorCode = [], ErrorMessage = [], TurnComplete = False,
      GroundingMetadata = None, LongRunningToolIDs = []\<rparr>"

definition MessageRoleUser :: string where "MessageRoleUser = ''user''"
definition MessageRoleAgent :: string where "MessageRoleAgent = ''agent''"

datatype TaskState =
    TaskStateSubmitted | TaskStateWorking | TaskStateInputRequired
  | TaskStateCompleted | TaskStateFailed | TaskStateCanceled

record Message =
  Role :: string
  Parts :: "a2a_Part list"
  TaskID :: string
  ContextID :: string

record TaskStatus =
  State :: TaskState
  Message :: "Message option"

record Artifact =
  ID :: string
  Parts :: "a2a_Part list"

record Task =
  ID :: string
  ContextID :: string
  Status :: TaskStatus
  Artifacts :: "Artifact list"

record TaskStatusUpdateEvent =
  TaskID :: string
  ContextID :: string
  Status :: TaskStatus
  Final :: bool
  Metadata :: "gomap option"

record TaskArtifactUpdateEvent =
  TaskID :: string
  ContextID :: string
  Artifact :: Artifact
  Append :: bool
  LastChunk :: bool
  Metadata :: "gomap option"

text \<open>\<open>OtherEvent\<close> stands for any other value of the \<^verbatim>\<open>a2a.Event\<close> interface.\<close>

datatype a2a_Event =
    MessageEvent Message
  | TaskEvent Task
  | StatusUpdate TaskStatusUpdateEvent
  | ArtifactUpdate TaskArtifactUpdateEvent
  | OtherEvent

text \<open>What the server is asked to do: the task and context of the request.\<close>

record RequestContext =
  TaskID :: string
  ContextID :: string
  StoredTask :: "Task option"
  Message :: "Message option"

text \<open>
  The constructors of the wire library. A new artifact gets a generated identifier,
  passed here as \<open>newID\<close>; an update of an existing artifact has \<open>Append\<close> set.
\<close>

definition NewMessage :: "string \<Rightarrow> a2a_Part list \<Rightarrow> Message" where
  "NewMessage role ps =
     \<lparr>Message.Role = role, Message.Parts = ps, Message.TaskID = [], Message.ContextID = []\<rparr>"

definition NewMessageForTask :: "string \<Rightarrow> RequestContext \<Rightarrow> a2a_Part list \<Rightarrow> Message" where
  "NewMessageForTask role task ps =
     \<lparr>Message.Role = role, Message.Parts = ps, Message.TaskID = RequestContext.TaskID task,
      Message.ContextID = RequestContext.ContextID task\<rparr>"

definition NewStatusUpdateEvent ::
    "RequestContext \<Rightarrow> TaskState \<Rightarrow> Message option \<Rightarrow> TaskStatusUpdateEvent" where
  "NewStatusUpdateEvent task state msg =
     \<lparr>TaskStatusUpdateEvent.TaskID = RequestContext.TaskID task,
      TaskStatusUpdateEvent.ContextID = RequestContext.ContextID task,
      TaskStatusUpdateEvent.Status = \<lparr>State = state, TaskStatus.Message = msg\<rparr>,
      Final = False, TaskStatusUpdateEvent.Metadata = None\<rparr>"

definition NewArtifactEvent ::
    "string \<Rightarrow> RequestContext \<Rightarrow> a2a_Part list \<Rightarrow> TaskArtifactUpdateEvent" where
  "NewArtifactEvent newID task ps =
     \<lparr>TaskArtifactUpdateEvent.TaskID = RequestContext.TaskID task,
      TaskArtifactUpdateEvent.ContextID = RequestContext.ContextID task,
      Artifact = \<lparr>Artifact.ID = newID, Artifact.Parts = ps\<rparr>,
      Append = False, LastChunk = False, TaskArtifactUpdateEvent.Metadata = None\<rparr>"

definition NewArtifactUpdateEvent ::
    "RequestContext \<Rightarrow> string \<Rightarrow> a2a_Part list \<Rightarrow> TaskArtifactUpdateEvent" where
  "NewArtifactUpdateEvent task artifactID ps =
     \<lparr>TaskArtifactUpdateEvent.TaskID = RequestContext.TaskID task,
      TaskArtifactUpdateEvent.ContextID = RequestContext.ContextID task,
      Artifact = \<lparr>Artifact.ID = artifactID, Artifact.Parts = ps\<rparr>,
      Append = True, LastChunk = False, TaskArtifactUpdateEvent.Metadata = None\<rparr>"

section \<open>Server role: metadata (metadata.go)\<close>

definition ToA2AMetaKey :: "string \<Rightarrow> string" where
  "ToA2AMetaKey key = ''adk_'' @ key"

record invocationMeta =
  userID :: string
  sessionID :: string
  eventMeta :: gomap

definition toInvocationMeta :: "string \<Rightarrow> RequestContext \<Rightarrow> invocationMeta" where
  "toInvocationMeta appName reqCtx =
     \<lparr>userID = ''A2A_USER_'' @ RequestContext.ContextID reqCtx,
      sessionID = RequestContext.ContextID reqCtx,
      eventMeta =
        [(ToA2AMetaKey ''app_name'', GStr appName),
         (ToA2AMetaKey ''user_id'', GStr (''A2A_USER_'' @ RequestContext.ContextID reqCtx)),
         (ToA2AMetaKey ''session_id'', GStr (RequestContext.ContextID reqCtx))]\<rparr>"

definition set_nonempty :: "string \<Rightarrow> string \<Rightarrow> gomap \<Rightarrow> gomap" where
  "set_nonempty k v m = (if v \<noteq> [] then AList.update (ToA2AMetaKey k) (GStr v) m else m)"

definition toEventMeta :: "invocationMeta \<Rightarrow> Event \<Rightarrow> error + gomap" where
  "toEventMeta meta event =
     (let r1 = set_nonempty ''branch'' (Branch event)
                 (set_nonempty ''author'' (Author event)
                   (set_nonempty ''invocation_id'' (InvocationID event) (eventMeta meta)));
          r2 = (if ErrorCode event \<noteq> []
                then AList.update (ToA2AMetaKey ''error_code'') (GStr (ErrorCode event)) r1
                else r1)
      in case GroundingMetadata event of
           None \<Rightarrow> Inr r2
         | Some g \<Rightarrow>
             (case toMapStructure (json_Marshal g) of
                Inl e \<Rightarrow> Inl e
              | Inr v \<Rightarrow>
                  Inr (AList.update (ToA2AMetaKey ''grounding_metadata'') (goval_of_map v) r2)))"

section \<open>Server role: the event processor (processor.go)\<close>

text \<open>\<^verbatim>\<open>%q\<close>: the string in double quotes with Go escapes (ASCII).\<close>

definition quote_char :: "char \<Rightarrow> string" where
  "quote_char c =
     (if c = CHR 0x22 then [CHR 0x5C, CHR 0x22]
      else if c = CHR 0x5C then [CHR 0x5C, CHR 0x5C]
      else if c = CHR 0x07 then [CHR 0x5C, CHR ''a'']
      else if c = CHR 0x08 then [CHR 0x5C, CHR ''b'']
      else if c = CHR 0x0C then [CHR 0x5C, CHR ''f'']
      else if c = CHR 0x0A then [CHR 0x5C, CHR ''n'']
      else if c = CHR 0x0D then [CHR 0x5C, CHR ''r'']
      else if c = CHR 0x09 then [CHR 0x5C, CHR ''t'']
      else if c = CHR 0x0B then [CHR 0x5C, CHR ''v'']
      else if (of_char c :: nat) < 32 \<or> c = CHR 0x7F then
        [CHR 0x5C, CHR ''x'', digit_char (of_char c div 16), digit_char (of_char c mod 16)]
      else [c])"

definition fmt_q :: "string \<Rightarrow> string" where
  "fmt_q s = [CHR 0x22] @ concat (map quote_char s) @ [CHR 0x22]"

record eventProcessor =
  reqCtx :: RequestContext
  meta :: invocationMeta
  responseID :: string
  terminalEvents :: "TaskState \<rightharpoonup> TaskStatusUpdateEvent"

definition newEventProcessor :: "RequestContext \<Rightarrow> invocationMeta \<Rightarrow> eventProcessor" where
  "newEventProcessor rc m =
     \<lparr>reqCtx = rc, meta = m, responseID = [], terminalEvents = Map.empty\<rparr>"

definition toTaskFailedUpdateEvent ::
    "RequestContext \<Rightarrow> error \<Rightarrow> gomap option \<Rightarrow> TaskStatusUpdateEvent" where
  "toTaskFailedUpdateEvent task cause m =
     (let msg = NewMessageForTask MessageRoleAgent task [TextPart (Error_text cause) None];
          ev = NewStatusUpdateEvent task TaskStateFailed (Some msg)
      in ev\<lparr>TaskStatusUpdateEvent.Metadata := m, Final := True\<rparr>)"

definition isInputRequired :: "Event \<Rightarrow> Part list \<Rightarrow> bool" where
  "isInputRequired event ps =
     (\<exists>p\<in>set ps. case FunctionCall p of
                     None \<Rightarrow> False
                   | Some c \<Rightarrow> FunctionCall.ID c \<in> set (LongRunningToolIDs event))"

definition errorFromResponse :: "Event \<Rightarrow> error" where
  "errorFromResponse resp = Error (''llm error response: '' @ fmt_q (ErrorMessage resp))"

text \<open>
  \<^verbatim>\<open>process\<close> mutates the processor and returns an artifact update, nothing, or an error;
  the model returns the processor after the call as well.
\<close>

definition process ::
    "string \<Rightarrow> eventProcessor \<Rightarrow> Event option
      \<Rightarrow> eventProcessor \<times> (error + TaskArtifactUpdateEvent option)" where
  "process newID p event =
     (case event of
        None \<Rightarrow> (p, Inr None)
      | Some ev \<Rightarrow>
     (case toEventMeta (meta p) ev of
        Inl e \<Rightarrow> (p, Inl e)
      | Inr evMeta \<Rightarrow>
     (let p1 = (if ErrorCode ev \<noteq> [] \<and> terminalEvents p TaskStateFailed = None
                then p\<lparr>terminalEvents := (terminalEvents p)(TaskStateFailed \<mapsto>
                         toTaskFailedUpdateEvent (reqCtx p) (errorFromResponse ev)
                           (Some evMeta))\<rparr>
                else p)
      in case Content ev of
           None \<Rightarrow> (p1, Inr None)
         | Some content \<Rightarrow>
             if Content.Parts content = [] then (p1, Inr None)
             else
               (let p2 = (if isInputRequired ev (Content.Parts content)
                          then p1\<lparr>terminalEvents := (terminalEvents p1)(TaskStateFailed \<mapsto>
                                   (NewStatusUpdateEvent (reqCtx p1) TaskStateInputRequired None)
                                     \<lparr>Final := True\<rparr>)\<rparr>
                          else p1)
                in case toA2AParts (Content.Parts content) (LongRunningToolIDs ev) of
                     Inl e \<Rightarrow> (p2, Inl e)
                   | Inr ps \<Rightarrow>
                       (let result = (if responseID p2 = []
                                      then NewArtifactEvent newID (reqCtx p2) ps
                                      else NewArtifactUpdateEvent (reqCtx p2) (responseID p2) ps);
                            p3 = (if responseID p2 = []
                                  then p2\<lparr>responseID := Artifact.ID (Artifact result)\<rparr>
                                  else p2)
                        in (p3, Inr (Some (if length evMeta > 0
                                           then result\<lparr>TaskArtifactUpdateEvent.Metadata :=
                                                  Some evMeta\<rparr>
                                           else result))))))))"

definition makeTerminalEvents :: "eventProcessor \<Rightarrow> a2a_Event list" where
  "makeTerminalEvents p =
     (let result = (if responseID p \<noteq> []
                    then [ArtifactUpdate ((NewArtifactUpdateEvent (reqCtx p) (responseID p) [])
                                            \<lparr>LastChunk := True\<rparr>)]
                    else [])
      in case terminalEvents p TaskStateFailed of
           Some ev \<Rightarrow> result @ [StatusUpdate ev]
         | None \<Rightarrow>
             (case terminalEvents p TaskStateInputRequired of
                Some ev \<Rightarrow> result @ [StatusUpdate ev]
              | None \<Rightarrow>
                  result @ [StatusUpdate ((NewStatusUpdateEvent (reqCtx p) TaskStateCompleted None)
                              \<lparr>TaskStatusUpdateEvent.Metadata := Some (eventMeta (meta p)),
                               Final := True\<rparr>)]))"

definition makeTaskFailedEvent ::
    "eventProcessor \<Rightarrow> error \<Rightarrow> Event option \<Rightarrow> TaskStatusUpdateEvent" where
  "makeTaskFailedEvent p cause event =
     (let m = (case event of
                 None \<Rightarrow> eventMeta (meta p)
               | Some ev \<Rightarrow>
                   (case toEventMeta (meta p) ev of
                      Inl e \<Rightarrow> eventMeta (meta p)
                    | Inr evMeta \<Rightarrow> evMeta))
      in toTaskFailedUpdateEvent (reqCtx p) cause (Some m))"

section \<open>Server role: the executor (executor.go)\<close>

text \<open>
  The event queue: the events written so far, and how many more writes succeed
  (\<open>None\<close>: every write succeeds).
\<close>

record Queue =
  written :: "a2a_Event list"
  failAfter :: "nat option"

definition Write :: "Queue \<Rightarrow> a2a_Event \<Rightarrow> error + Queue" where
  "Write q ev =
     (case failAfter q of
        None \<Rightarrow> Inr (q\<lparr>written := written q @ [ev]\<rparr>)
      | Some 0 \<Rightarrow> Inl (Error ''queue write failed'')
      | Some (Suc n) \<Rightarrow> Inr (q\<lparr>written := written q @ [ev], failAfter := Some n\<rparr>))"

text \<open>
  The collaborators of one execution: whether the runner can be created, whether the
  session exists or can be created, what the local run yields (pairs of an event and an
  error, as the iterator gives them), and the identifier generated for a new artifact.
\<close>

record ExecEnv =
  AppName :: string
  runner_New :: "error option"
  session_Get :: bool
  session_Create :: "error option"
  runner_Run :: "string \<Rightarrow> string \<Rightarrow> Content \<Rightarrow> (Event option \<times> error option) list"
  NewArtifactID :: string

definition toGenAIContent :: "Message \<Rightarrow> error + Content" where
  "toGenAIContent msg =
     (case toGenAIParts (Message.Parts msg) of
        Inl e \<Rightarrow> Inl e
      | Inr ps \<Rightarrow> Inr \<lparr>Content.Parts = ps, Content.Role = RoleUser\<rparr>)"

definition prepareSession :: "ExecEnv \<Rightarrow> invocationMeta \<Rightarrow> error option" where
  "prepareSession env m =
     (if session_Get env then None
      else (case session_Create env of
              Some e \<Rightarrow> Some (Errorf ''failed to create a session: '' e)
            | None \<Rightarrow> None))"

fun write_all :: "Queue \<Rightarrow> a2a_Event list \<Rightarrow> Queue \<times> error option" where
  "write_all q [] = (q, None)"
| "write_all q (ev # evs) =
     (case Write q ev of
        Inl e \<Rightarrow> (q, Some (Errorf ''terminal event send failed: '' e))
      | Inr q' \<Rightarrow> write_all q' evs)"

text \<open>
  \<^verbatim>\<open>Executor.process\<close>: the loop over the local run, then the terminal events. The
  result is the queue after the call and the returned error.
\<close>

fun executor_process ::
    "string \<Rightarrow> eventProcessor \<Rightarrow> (Event option \<times> error option) list \<Rightarrow> Queue
      \<Rightarrow> Queue \<times> error option" where
  "executor_process newID p [] q = write_all q (makeTerminalEvents p)"
| "executor_process newID p ((event, err) # rest) q =
     (case err of
        Some e \<Rightarrow>
          (case Write q (StatusUpdate
                  (makeTaskFailedEvent p (Errorf ''agent run failed: '' e) None)) of
             Inl sendErr \<Rightarrow>
               (q, Some (Error (''error event write failed: '' @ Error_text e @ '', ''
                                  @ Error_text sendErr)))
           | Inr q' \<Rightarrow> (q', None))
      | None \<Rightarrow>
          (case process newID p event of
             (p', Inl e) \<Rightarrow>
               (case Write q (StatusUpdate
                       (makeTaskFailedEvent p' (Errorf ''processor failed: '' e) event)) of
                  Inl sendErr \<Rightarrow>
                    (q, Some (Error (''processor error event write failed: '' @ Error_text e
                                       @ '', '' @ Error_text sendErr)))
                | Inr q' \<Rightarrow> (q', None))
           | (p', Inr None) \<Rightarrow> executor_process newID p' rest q
           | (p', Inr (Some a2aEvent)) \<Rightarrow>
               (case Write q (ArtifactUpdate a2aEvent) of
                  Inl e \<Rightarrow> (q, Some (Errorf ''send event failed: '' e))
                | Inr q' \<Rightarrow> executor_process newID p' rest q')))"

definition Execute :: "ExecEnv \<Rightarrow> RequestContext \<Rightarrow> Queue \<Rightarrow> Queue \<times> error option" where
  "Execute env rc queue =
     (case RequestContext.Message rc of
        None \<Rightarrow> (queue, Some (Error ''message not provided''))
      | Some msg \<Rightarrow>
     (case toGenAIContent msg of
        Inl e \<Rightarrow> (queue, Some (Errorf ''a2a message conversion failed: '' e))
      | Inr content \<Rightarrow>
     (case runner_New env of
        Some e \<Rightarrow> (queue, Some (Errorf ''failed to create a runner: '' e))
      | None \<Rightarrow>
     (case (if StoredTask rc = None
            then (case Write queue (StatusUpdate (NewStatusUpdateEvent rc TaskStateSubmitted None)) of
                    Inl e \<Rightarrow> Inl (Errorf ''failed to setup a task: '' e)
                  | Inr q \<Rightarrow> Inr q)
            else Inr queue) of
        Inl e \<Rightarrow> (queue, Some e)
      | Inr q1 \<Rightarrow>
     (let im = toInvocationMeta (AppName env) rc
      in case prepareSession env im of
           Some e \<Rightarrow>
             (case Write q1 (StatusUpdate (toTaskFailedUpdateEvent rc e (Some (eventMeta im)))) of
                Inl we \<Rightarrow> (q1, Some we)
              | Inr q2 \<Rightarrow> (q2, None))
         | None \<Rightarrow>
             (case Write q1 (StatusUpdate ((NewStatusUpdateEvent rc TaskStateWorking None)
                                \<lparr>TaskStatusUpdateEvent.Metadata := Some (eventMeta im)\<rparr>)) of
                Inl we \<Rightarrow> (q1, Some we)
              | Inr q2 \<Rightarrow>
                  executor_process (NewArtifactID env) (newEventProcessor rc im)
                    (runner_Run env (userID im) (sessionID im) content) q2))))))"

section \<open>Client role: inbound event translation (ToSessionEvent)\<close>

text \<open>
  What a call gives back when it may also panic (a nil pointer dereference): a value,
  an error, or the panic.
\<close>

datatype 'a result = Ok 'a | Err error | Panic

record InvocationContext =
  AgentName :: string
  InvocationID :: string
  Branch :: string
  SessionEvents :: "Event list"

definition ToADKMetaKey :: "string \<Rightarrow> string" where
  "ToADKMetaKey key = ''a2a:'' @ key"

definition customMetaTaskIDKey :: string where
  "customMetaTaskIDKey = ToADKMetaKey ''task_id''"

definition customMetaContextIDKey :: string where
  "customMetaContextIDKey = ToADKMetaKey ''context_id''"

definition NewRemoteAgentEvent :: "InvocationContext \<Rightarrow> Event" where
  "NewRemoteAgentEvent ctx =
     (NewEvent (InvocationContext.InvocationID ctx))
       \<lparr>Author := AgentName ctx, Event.Branch := InvocationContext.Branch ctx\<rparr>"

text \<open>\<^verbatim>\<open>EventToMessage\<close> on a non-nil event; it reads the parts of the content unguarded.\<close>

definition EventToMessage :: "Event \<Rightarrow> Message result" where
  "EventToMessage event =
     (case Content event of
        None \<Rightarrow> Panic
      | Some content \<Rightarrow>
          (case toA2AParts (Content.Parts content) (LongRunningToolIDs event) of
             Inl e \<Rightarrow> Err (Errorf ''part conversion failed: '' e)
           | Inr ps \<Rightarrow>
               Ok (NewMessage (if Author event = ''user'' then MessageRoleUser
                               else MessageRoleAgent) ps)))"

definition ToCustomMetadata :: "string \<Rightarrow> string \<Rightarrow> gomap" where
  "ToCustomMetadata taskID ctxID =
     [(customMetaTaskIDKey, GStr taskID), (customMetaContextIDKey, GStr ctxID)]"

definition meta_string :: "gomap \<Rightarrow> string \<Rightarrow> string" where
  "meta_string m k = (case map_of m k of Some (GStr s) \<Rightarrow> s | _ \<Rightarrow> [])"

definition GetA2ATaskInfo :: "Event \<Rightarrow> string \<times> string" where
  "GetA2ATaskInfo event =
     (case CustomMetadata event of
        None \<Rightarrow> ([], [])
      | Some m \<Rightarrow> (meta_string m customMetaTaskIDKey, meta_string m customMetaContextIDKey))"

definition toGenAIRole :: "string \<Rightarrow> string" where
  "toGenAIRole role = (if role = MessageRoleUser then RoleUser else RoleModel)"

text \<open>
  \<^verbatim>\<open>messageToEvent\<close>: the context may be nil (an error) and the message may be nil (no
  event, no error).
\<close>

definition messageToEvent ::
    "InvocationContext option \<Rightarrow> Message option \<Rightarrow> error + Event option" where
  "messageToEvent ctx msg =
     (case ctx of
        None \<Rightarrow> Inl (Error ''InvocationContext not provided'')
      | Some c \<Rightarrow>
     (case msg of
        None \<Rightarrow> Inr None
      | Some m \<Rightarrow>
     (case toGenAIParts (Message.Parts m) of
        Inl e \<Rightarrow> Inl e
      | Inr ps \<Rightarrow>
          (let event = NewRemoteAgentEvent c;
               event1 = (if length ps > 0
                         then event\<lparr>Content :=
                                Some (NewContentFromParts ps (toGenAIRole (Message.Role m)))\<rparr>
                         else event);
               event2 = (if Message.TaskID m \<noteq> [] \<or> Message.ContextID m \<noteq> []
                         then event1\<lparr>CustomMetadata :=
                                Some (ToCustomMetadata (Message.TaskID m) (Message.ContextID m))\<rparr>
                         else event1)
           in Inr (Some event2)))))"

definition artifactToEvent :: "InvocationContext option \<Rightarrow> Artifact \<Rightarrow> error + Event" where
  "artifactToEvent ctx artifact =
     (case ctx of
        None \<Rightarrow> Inl (Error ''InvocationContext not provided'')
      | Some c \<Rightarrow>
          (case toGenAIParts (Artifact.Parts artifact) of
             Inl e \<Rightarrow> Inl e
           | Inr ps \<Rightarrow>
               Inr ((NewRemoteAgentEvent c)\<lparr>Content := Some (NewContentFromParts ps RoleModel)\<rparr>)))"

text \<open>The two lists have the same length: the second is the decoding of the first.\<close>

fun getLongRunningToolIDs :: "a2a_Part list \<Rightarrow> Part list \<Rightarrow> string list" where
  "getLongRunningToolIDs (DataPart d (Some md) # ps) (c # cs) =
     (case map_of md a2aDataPartMetaLongRunningKey of
        Some (GBool True) \<Rightarrow>
          (case FunctionCall c of
             None \<Rightarrow> getLongRunningToolIDs ps cs
           | Some fnCall \<Rightarrow> FunctionCall.ID fnCall # getLongRunningToolIDs ps cs)
      | _ \<Rightarrow> getLongRunningToolIDs ps cs)"
| "getLongRunningToolIDs (p # ps) (c # cs) = getLongRunningToolIDs ps cs"
| "getLongRunningToolIDs _ _ = []"

definition taskToEvent :: "InvocationContext option \<Rightarrow> Task \<Rightarrow> error + Event" where
  "taskToEvent ctx task =
     (case ctx of
        None \<Rightarrow> Inl (Error ''InvocationContext not provided'')
      | Some c \<Rightarrow>
     (case foldl (\<lambda>acc artifact.
              case acc of
                Inl e \<Rightarrow> Inl e
              | Inr (ps, ids) \<Rightarrow>
                  (case toGenAIParts (Artifact.Parts artifact) of
                     Inl e \<Rightarrow> Inl (Errorf ''failed to convert artifact parts: '' e)
                   | Inr artifactParts \<Rightarrow>
                       Inr (ps @ artifactParts,
                            ids @ getLongRunningToolIDs (Artifact.Parts artifact) artifactParts)))
            (Inr ([], [])) (Artifacts task) of
        Inl e \<Rightarrow> Inl e
      | Inr (ps, ids) \<Rightarrow>
     (case (case TaskStatus.Message (Task.Status task) of
              None \<Rightarrow> Inr (ps, ids)
            | Some m \<Rightarrow>
                (case toGenAIParts (Message.Parts m) of
                   Inl e \<Rightarrow> Inl (Errorf ''failed to convert status message parts: '' e)
                 | Inr msgParts \<Rightarrow>
                     Inr (ps @ msgParts,
                          ids @ getLongRunningToolIDs (Message.Parts m) msgParts))) of
        Inl e \<Rightarrow> Inl e
      | Inr (ps', ids') \<Rightarrow>
          (let event = NewRemoteAgentEvent c;
               event1 = (if length ps' > 0
                         then event\<lparr>Content := Some (NewContentFromParts ps' RoleModel)\<rparr>
                         else event);
               event2 = event1\<lparr>CustomMetadata :=
                          Some (ToCustomMetadata (Task.ID task) (Task.ContextID task))\<rparr>
           in Inr (if State (Task.Status task) = TaskStateInputRequired
                   then event2\<lparr>LongRunningToolIDs := ids'\<rparr>
                   else event2)))))"

text \<open>
  \<^verbatim>\<open>finalTaskStatusUpdateToEvent\<close> does not test the context: with a nil context it
  panics once the parts are decoded.
\<close>

definition finalTaskStatusUpdateToEvent ::
    "InvocationContext option \<Rightarrow> TaskStatusUpdateEvent \<Rightarrow> Event option result" where
  "finalTaskStatusUpdateToEvent ctx update =
     (case (case TaskStatus.Message (TaskStatusUpdateEvent.Status update) of
              None \<Rightarrow> Inr []
            | Some m \<Rightarrow> toGenAIParts (Message.Parts m)) of
        Inl e \<Rightarrow> Err e
      | Inr ps \<Rightarrow>
          (case ctx of
             None \<Rightarrow> Panic
           | Some c \<Rightarrow>
               (let event = NewRemoteAgentEvent c;
                    event1 = (if length ps > 0
                              then event\<lparr>Content := Some (NewContentFromParts ps RoleModel)\<rparr>
                              else event)
                in Ok (Some (event1\<lparr>CustomMetadata :=
                               Some (ToCustomMetadata (TaskStatusUpdateEvent.TaskID update)
                                       (TaskStatusUpdateEvent.ContextID update)),
                             TurnComplete := True\<rparr>)))))"

text \<open>
  \<^verbatim>\<open>ToSessionEvent\<close>. In the branch of a status update that is not final, the event
  returned by \<^verbatim>\<open>messageToEvent\<close> is written to before the error is looked at, and the
  parts of its content are read without testing the content.
\<close>

definition ToSessionEvent ::
    "InvocationContext option \<Rightarrow> a2a_Event \<Rightarrow> Event option result" where
  "ToSessionEvent ctx event =
     (case event of
        TaskEvent v \<Rightarrow>
          (case taskToEvent ctx v of Inl e \<Rightarrow> Err e | Inr ev \<Rightarrow> Ok (Some ev))
      | MessageEvent v \<Rightarrow>
          (case messageToEvent ctx (Some v) of Inl e \<Rightarrow> Err e | Inr ev \<Rightarrow> Ok ev)
      | ArtifactUpdate v \<Rightarrow>
          (if length (Artifact.Parts (Artifact v)) = 0 then Ok None
           else
             (case artifactToEvent ctx (Artifact v) of
                Inl e \<Rightarrow> Err (Errorf ''artifact update event conversion failed: '' e)
              | Inr ev \<Rightarrow>
                  (case Content ev of
                     None \<Rightarrow> Panic
                   | Some content \<Rightarrow>
                       Ok (Some (ev\<lparr>LongRunningToolIDs :=
                                     getLongRunningToolIDs (Artifact.Parts (Artifact v))
                                       (Content.Parts content),
                                   CustomMetadata :=
                                     Some (ToCustomMetadata (TaskArtifactUpdateEvent.TaskID v)
                                             (TaskArtifactUpdateEvent.ContextID v))\<rparr>)))))
      | StatusUpdate v \<Rightarrow>
          (if Final v then finalTaskStatusUpdateToEvent ctx v
           else
             (case TaskStatus.Message (TaskStatusUpdateEvent.Status v) of
                None \<Rightarrow> Ok None
              | Some m \<Rightarrow>
                  (case messageToEvent ctx (Some m) of
                     Inl e \<Rightarrow> Panic
                   | Inr None \<Rightarrow> Panic
                   | Inr (Some ev) \<Rightarrow>
                       (let ev1 = ev\<lparr>CustomMetadata :=
                                    Some (ToCustomMetadata (TaskStatusUpdateEvent.TaskID v)
                                            (TaskStatusUpdateEvent.ContextID v))\<rparr>
                        in case Content ev1 of
                             None \<Rightarrow> Panic
                           | Some content \<Rightarrow>
                               if length (Content.Parts content) = 0 then Ok None
                               else Ok (Some (ev1\<lparr>Content :=
                                         Some (content\<lparr>Content.Parts :=
                                           map (\<lambda>part. part\<lparr>Thought := True\<rparr>)
                                             (Content.Parts content)\<rparr>)\<rparr>))))))
      | OtherEvent \<Rightarrow> Err (Error ''unknown event type''))"

section \<open>Client role: what the remote session is missing (utils.go)\<close>

record userFunctionCall =
  event :: Event
  taskID :: string
  contextID :: string

definition isFunctionCallEvent :: "Event \<Rightarrow> string \<Rightarrow> bool" where
  "isFunctionCallEvent ev callID =
     (case Content ev of
        None \<Rightarrow> False
      | Some content \<Rightarrow>
          (\<exists>part\<in>set (Content.Parts content).
             case FunctionCall part of
               None \<Rightarrow> False
             | Some c \<Rightarrow> FunctionCall.ID c = callID))"

text \<open>The call ID of the first part that has a function response.\<close>

definition getFunctionResponseCallID :: "Event \<Rightarrow> string option" where
  "getFunctionResponseCallID ev =
     (case Content ev of
        None \<Rightarrow> None
      | Some content \<Rightarrow>
          (case List.find (\<lambda>part. FunctionResponse part \<noteq> None) (Content.Parts content) of
             None \<Rightarrow> None
           | Some part \<Rightarrow> Some (FunctionResponse.ID (the (FunctionResponse part)))))"

text \<open>
  The backward loop of \<^verbatim>\<open>getUserFunctionCallAt\<close>: \<open>findFunctionCall events n id\<close> looks
  at the indices \<open>n - 1\<close> down to \<open>0\<close>.
\<close>

fun findFunctionCall :: "Event list \<Rightarrow> nat \<Rightarrow> string \<Rightarrow> (string \<times> string) option" where
  "findFunctionCall events 0 fnCallID = None"
| "findFunctionCall events (Suc i) fnCallID =
     (if isFunctionCallEvent (events ! i) fnCallID then Some (GetA2ATaskInfo (events ! i))
      else findFunctionCall events i fnCallID)"

definition getUserFunctionCallAt :: "Event list \<Rightarrow> int \<Rightarrow> userFunctionCall option" where
  "getUserFunctionCallAt events index =
     (if index < 0 \<or> index \<ge> int (length events) then None
      else
        (let candidate = events ! nat index
         in if Author candidate \<noteq> ''user'' then None
            else
              (case getFunctionResponseCallID candidate of
                 None \<Rightarrow> None
               | Some fnCallID \<Rightarrow>
                   (case findFunctionCall events (nat index) fnCallID of
                      None \<Rightarrow> None
                    | Some (tid, ctxID) \<Rightarrow>
                        Some \<lparr>event = candidate, taskID = tid, contextID = ctxID\<rparr>))))"

definition presentPart :: "string \<Rightarrow> Part \<Rightarrow> Part" where
  "presentPart author part =
     (if Text part \<noteq> [] then
        NewPartFromText (''['' @ author @ ''] said: '' @ Text part)
      else
        (case FunctionCall part of
           Some call \<Rightarrow>
             NewPartFromText (''['' @ author @ ''] called tool '' @ FunctionCall.Name call
                              @ '' with parameters: '' @ fmt_map (Args call))
         | None \<Rightarrow>
             (case FunctionResponse part of
                Some resp \<Rightarrow>
                  NewPartFromText (''['' @ author @ ''] '' @ FunctionResponse.Name resp
                                   @ '' tool returned result: '' @ fmt_map (Response resp))
              | None \<Rightarrow> part)))"

definition presentAsUserMessage :: "InvocationContext \<Rightarrow> Event \<Rightarrow> Event" where
  "presentAsUserMessage ctx agentEvent =
     (let ev = (NewEvent (InvocationContext.InvocationID ctx))\<lparr>Author := ''user''\<rparr>
      in case Content agentEvent of
           None \<Rightarrow> ev
         | Some content \<Rightarrow>
             (let ps = NewPartFromText ''For context:''
                         # map (presentPart (Author agentEvent))
                             (filter (\<lambda>part. \<not> Thought part) (Content.Parts content))
              in if length ps > 1
                 then ev\<lparr>Content := Some (NewContentFromParts ps RoleUser)\<rparr>
                 else ev))"

text \<open>
  The backward loop of \<^verbatim>\<open>toMissingRemoteSessionParts\<close>: the index of the last event
  written by the remote agent (\<open>-1\<close> if there is none) and the context ID found in it.
\<close>

fun lastRemoteResponse :: "string \<Rightarrow> Event list \<Rightarrow> nat \<Rightarrow> int \<times> string" where
  "lastRemoteResponse name events 0 = (- 1, [])"
| "lastRemoteResponse name events (Suc i) =
     (if Author (events ! i) = name then (int i, snd (GetA2ATaskInfo (events ! i)))
      else lastRemoteResponse name events i)"

text \<open>The forward loop, over the events after that index.\<close>

fun missingParts :: "InvocationContext \<Rightarrow> Event list \<Rightarrow> a2a_Part list" where
  "missingParts ctx [] = []"
| "missingParts ctx (e # es) =
     (let ev = (if Author e \<noteq> ''user'' \<and> Author e \<noteq> AgentName ctx
                then presentAsUserMessage ctx e else e)
      in case Content ev of
           None \<Rightarrow> missingParts ctx es
         | Some content \<Rightarrow>
             if length (Content.Parts content) = 0 then missingParts ctx es
             else
               (case toA2AParts (Content.Parts content) (LongRunningToolIDs ev) of
                  Inl err \<Rightarrow> missingParts ctx es
                | Inr ps \<Rightarrow> ps @ missingParts ctx es))"

definition toMissingRemoteSessionParts ::
    "InvocationContext \<Rightarrow> Event list \<Rightarrow> a2a_Part list \<times> string" where
  "toMissingRemoteSessionParts ctx events =
     (case lastRemoteResponse (AgentName ctx) events (length events) of
        (lastRemoteResponseIndex, ctxID) \<Rightarrow>
          (missingParts ctx (drop (nat (lastRemoteResponseIndex + 1)) events), ctxID))"

section \<open>Client role: the remote agent (a2a_agent.go)\<close>

record AgentCard =
  URL :: string
  PreferredTransport :: string

record A2AConfig =
  cfg_Name :: string
  cfg_AgentCard :: "AgentCard option"
  AgentCardSource :: string

text \<open>
  What the agent does to the outside, in order: reading the card file, fetching the card
  from a URL, creating and destroying the client, sending the message to the peer.
\<close>

datatype effect =
    ReadCardFile string
  | FetchCard string
  | CreateClient
  | SendMessage Message
  | DestroyClient

text \<open>
  The collaborators of one invocation: the file system, the JSON parser, the card
  resolver, the client factory, the stream of the peer (pairs of an event and an error),
  the conversion of the request to a map for the metadata, and the consumer, which says
  after each event whether it wants more.
\<close>

record ClientEnv =
  ReadFile :: "string \<Rightarrow> error + string"
  json_parse :: "string \<Rightarrow> error + json"
  Resolve :: "string \<Rightarrow> error + AgentCard"
  CreateFromCard :: "AgentCard \<Rightarrow> error option"
  SendStreamingMessage :: "Message \<Rightarrow> (a2a_Event \<times> error option) list"
  request_map :: "Message \<Rightarrow> error + gomap option"
  yield :: "Event \<Rightarrow> bool"

definition HasPrefix :: "string \<Rightarrow> string \<Rightarrow> bool" where
  "HasPrefix s p = (take (length p) s = p)"

text \<open>
  \<^verbatim>\<open>json.Unmarshal\<close> into a nil pointer: a syntax error for text that is not JSON, an
  \<^verbatim>\<open>InvalidUnmarshalError\<close> otherwise.
\<close>

definition json_Unmarshal_nil :: "ClientEnv \<Rightarrow> string \<Rightarrow> error" where
  "json_Unmarshal_nil env bytes =
     (case json_parse env bytes of
        Inl e \<Rightarrow> e
      | Inr v \<Rightarrow> Error ''json: Unmarshal(nil *a2a.AgentCard)'')"

definition resolveAgentCard :: "ClientEnv \<Rightarrow> A2AConfig \<Rightarrow> effect list \<times> (error + AgentCard)" where
  "resolveAgentCard env cfg =
     (case cfg_AgentCard cfg of
        Some agentCard \<Rightarrow> ([], Inr agentCard)
      | None \<Rightarrow>
          if HasPrefix (AgentCardSource cfg) ''http://''
             \<or> HasPrefix (AgentCardSource cfg) ''https://''
          then
            (case Resolve env (AgentCardSource cfg) of
               Inl e \<Rightarrow>
                 ([FetchCard (AgentCardSource cfg)],
                  Inl (Errorf ''failed to fetch an agent card: '' e))
             | Inr agentCard \<Rightarrow> ([FetchCard (AgentCardSource cfg)], Inr agentCard))
          else
            (case ReadFile env (AgentCardSource cfg) of
               Inl e \<Rightarrow>
                 ([ReadCardFile (AgentCardSource cfg)],
                  Inl (Errorf (''failed to read agent card from '' @ fmt_q (AgentCardSource cfg)
                               @ '': '') e))
             | Inr fileBytes \<Rightarrow>
                 ([ReadCardFile (AgentCardSource cfg)],
                  Inl (Errorf ''failed to unmarshal an agent card: ''
                         (json_Unmarshal_nil env fileBytes)))))"

definition newMessage :: "InvocationContext \<Rightarrow> Message result" where
  "newMessage ctx =
     (let events = SessionEvents ctx
      in case getUserFunctionCallAt events (int (length events) - 1) of
           Some userFnCall \<Rightarrow>
             (case EventToMessage (event userFnCall) of
                Ok msg \<Rightarrow>
                  Ok (msg\<lparr>Message.TaskID := taskID userFnCall,
                          Message.ContextID := contextID userFnCall\<rparr>)
              | Err e \<Rightarrow> Err e
              | Panic \<Rightarrow> Panic)
         | None \<Rightarrow>
             (case toMissingRemoteSessionParts ctx events of
                (ps, ctxID) \<Rightarrow> Ok ((NewMessage MessageRoleUser ps)\<lparr>Message.ContextID := ctxID\<rparr>)))"

definition toErrorEvent :: "InvocationContext \<Rightarrow> error \<Rightarrow> Event" where
  "toErrorEvent ctx err =
     (NewRemoteAgentEvent ctx)
       \<lparr>ErrorMessage := Error_text err,
        CustomMetadata := Some [(ToADKMetaKey ''error'', GStr (Error_text err))]\<rparr>"

text \<open>
  \<^verbatim>\<open>updateCustomMetadata\<close> with a request that is not nil: the map of the request is
  stored under the key of the request and, if there is a response, under the key of the
  response as well.
\<close>

definition updateCustomMetadata :: "ClientEnv \<Rightarrow> Event \<Rightarrow> Message \<Rightarrow> a2a_Event option \<Rightarrow> Event" where
  "updateCustomMetadata env ev request response =
     (let m0 = (case CustomMetadata ev of None \<Rightarrow> [] | Some m \<Rightarrow> m);
          put = (\<lambda>k m. case request_map env request of
                         Inr payload \<Rightarrow> AList.update (ToADKMetaKey k) (goval_of_map payload) m
                       | Inl e \<Rightarrow>
                           AList.update (ToADKMetaKey (k @ ''_codec_error''))
                             (GStr (Error_text e)) m);
          m1 = put ''request'' m0;
          m2 = (case response of None \<Rightarrow> m1 | Some r \<Rightarrow> put ''response'' m1)
      in ev\<lparr>CustomMetadata := Some m2\<rparr>)"

text \<open>The loop over the stream of the peer; a panic of the translation ends it.\<close>

fun stream_loop ::
    "ClientEnv \<Rightarrow> InvocationContext \<Rightarrow> Message \<Rightarrow> (a2a_Event \<times> error option) list
      \<Rightarrow> Event list result" where
  "stream_loop env ctx req [] = Ok []"
| "stream_loop env ctx req ((a2aEvent, err) # rest) =
     (case err of
        Some e \<Rightarrow> Ok [updateCustomMetadata env (toErrorEvent ctx e) req None]
      | None \<Rightarrow>
          (case ToSessionEvent (Some ctx) a2aEvent of
             Panic \<Rightarrow> Panic
           | Err e \<Rightarrow>
               Ok [updateCustomMetadata env
                     (toErrorEvent ctx (Errorf ''failed to convert a2aEvent: '' e)) req None]
           | Ok None \<Rightarrow> stream_loop env ctx req rest
           | Ok (Some ev) \<Rightarrow>
               (let ev' = updateCustomMetadata env ev req (Some a2aEvent)
                in if \<not> yield env ev' then Ok [ev']
                   else (case stream_loop env ctx req rest of
                           Ok evs \<Rightarrow> Ok (ev' # evs)
                         | Err e \<Rightarrow> Err e
                         | Panic \<Rightarrow> Panic))))"

text \<open>
  \<^verbatim>\<open>a2aAgent.run\<close>: the events yielded, in order, and what was done to the outside.
  The card the agent keeps after resolving it is not read again and is left out.
\<close>

definition run ::
    "ClientEnv \<Rightarrow> InvocationContext \<Rightarrow> A2AConfig \<Rightarrow> (Event list \<times> effect list) result" where
  "run env ctx cfg =
     (case resolveAgentCard env cfg of
        (fx, Inl err) \<Rightarrow>
          Ok ([toErrorEvent ctx (Errorf ''agent card resolution failed: '' err)], fx)
      | (fx, Inr agentCard) \<Rightarrow>
     (case CreateFromCard env agentCard of
        Some err \<Rightarrow>
          Ok ([toErrorEvent ctx (Errorf ''client creation failed: '' err)], fx @ [CreateClient])
      | None \<Rightarrow>
     (case newMessage ctx of
        Panic \<Rightarrow> Panic
      | Err err \<Rightarrow>
          Ok ([toErrorEvent ctx (Errorf ''message creation failed: '' err)],
              fx @ [CreateClient, DestroyClient])
      | Ok msg \<Rightarrow>
          if length (Message.Parts msg) = 0
          then Ok ([NewRemoteAgentEvent ctx], fx @ [CreateClient, DestroyClient])
          else
            (case stream_loop env ctx msg (SendStreamingMessage env msg) of
               Panic \<Rightarrow> Panic
             | Err e \<Rightarrow> Err e
             | Ok evs \<Rightarrow> Ok (evs, fx @ [CreateClient, SendMessage msg, DestroyClient])))))"

section \<open>Notions used to state the properties of the client role\<close>

text \<open>
  The event as the forward loop of \<^verbatim>\<open>toMissingRemoteSessionParts\<close> sees it (rewritten
  if it is written by neither the user nor the remote agent), and the wire parts one
  event adds to the result.
\<close>

definition presented :: "InvocationContext \<Rightarrow> Event \<Rightarrow> Event" where
  "presented ctx e =
     (if Author e \<noteq> ''user'' \<and> Author e \<noteq> AgentName ctx
      then presentAsUserMessage ctx e else e)"

definition contribution :: "InvocationContext \<Rightarrow> Event \<Rightarrow> a2a_Part list" where
  "contribution ctx e =
     (case Content (presented ctx e) of
        None \<Rightarrow> []
      | Some content \<Rightarrow>
          (case toA2AParts (Content.Parts content) (LongRunningToolIDs (presented ctx e)) of
             Inl err \<Rightarrow> []
           | Inr ps \<Rightarrow> ps))"

text \<open>
  The text line that credits the author of a text, function call or function response
  part, in the words of the specification.
\<close>

definition described :: "Part \<Rightarrow> bool" where
  "described p = (Text p \<noteq> [] \<or> FunctionCall p \<noteq> None \<or> FunctionResponse p \<noteq> None)"

definition describe :: "string \<Rightarrow> Part \<Rightarrow> string" where
  "describe author p =
     (if Text p \<noteq> [] then ''['' @ author @ ''] said: '' @ Text p
      else case FunctionCall p of
             Some c \<Rightarrow> ''['' @ author @ ''] called tool '' @ FunctionCall.Name c
                        @ '' with parameters: '' @ fmt_map (Args c)
           | None \<Rightarrow>
               (case FunctionResponse p of
                  Some r \<Rightarrow> ''['' @ author @ ''] '' @ FunctionResponse.Name r
                             @ '' tool returned result: '' @ fmt_map (Response r)
                | None \<Rightarrow> []))"


definition newEventFromParts :: "string \<Rightarrow> Part list \<Rightarrow> Event" where
  "newEventFromParts author ps =
     (NewEvent [])\<lparr>Author := author,
        Content := (if ps = [] then None
                    else Some (NewContentFromParts ps
                                 (if author = ''user'' then RoleUser else RoleModel)))\<rparr>"


definition responsePart :: "string \<Rightarrow> gomap \<Rightarrow> Part" where
  "responsePart i r =
     emptyPart\<lparr>FunctionResponse := Some \<lparr>FunctionResponse.ID = i, FunctionResponse.Name = [],
                    Response = Some r, Scheduling = []\<rparr>\<rparr>"

definition ex_ctx :: "Event list \<Rightarrow> InvocationContext" where
  "ex_ctx evs =
     \<lparr>AgentName = ''remote-agent'', InvocationContext.InvocationID = ''inv-2'',
      InvocationContext.Branch = [], SessionEvents = evs\<rparr>"

definition ex_statusUpdate :: "a2a_Part list \<Rightarrow> TaskStatusUpdateEvent" where
  "ex_statusUpdate ps =
     \<lparr>TaskStatusUpdateEvent.TaskID = ''task-1'', TaskStatusUpdateEvent.ContextID = ''ctx-1'',
      TaskStatusUpdateEvent.Status =
        \<lparr>State = TaskStateWorking, TaskStatus.Message = Some (NewMessage MessageRoleAgent ps)\<rparr>,
      Final = False, TaskStatusUpdateEvent.Metadata = None\<rparr>"

definition ex_clientEnv :: "(string \<Rightarrow> error + string) \<Rightarrow> ClientEnv" where
  "ex_clientEnv files =
     \<lparr>ReadFile = files,
      json_parse = (\<lambda>s. if s = ''{}'' then Inr (JObject []) else Inl (Error ''invalid character'')),
      Resolve = (\<lambda>url. Inl (Error ''no such host'')),
      CreateFromCard = (\<lambda>c. None),
      SendStreamingMessage = (\<lambda>m. []),
      request_map = (\<lambda>m. Inr (Some [])),
      yield = (\<lambda>e. True)\<rparr>"

definition ex_config :: "string \<Rightarrow> A2AConfig" where
  "ex_config src = \<lparr>cfg_Name = ''a2a'', cfg_AgentCard = None, AgentCardSource = src\<rparr>"

section \<open>Notions used to state the round trip of the part codec\<close>

text \<open>
  The kinds of a part in the data model of the specification, each with exactly one
  case populated, and the \<^verbatim>\<open>genai.Part\<close> that holds it.
\<close>

datatype PartKind =
    TextKind string bool
  | InlineFileKind Blob
  | URIFileKind FileData
  | FunctionCallKind FunctionCall
  | FunctionResponseKind FunctionResponse
  | ExecutableCodeKind ExecutableCode
  | CodeExecutionResultKind CodeExecutionResult

fun part_of :: "PartKind \<Rightarrow> Part" where
  "part_of (TextKind t th) = emptyPart\<lparr>Text := t, Thought := th\<rparr>"
| "part_of (InlineFileKind b) = emptyPart\<lparr>InlineData := Some b\<rparr>"
| "part_of (URIFileKind f) = emptyPart\<lparr>FileData := Some f\<rparr>"
| "part_of (FunctionCallKind c) = emptyPart\<lparr>FunctionCall := Some c\<rparr>"
| "part_of (FunctionResponseKind r) = emptyPart\<lparr>FunctionResponse := Some r\<rparr>"
| "part_of (ExecutableCodeKind c) = emptyPart\<lparr>ExecutableCode := Some c\<rparr>"
| "part_of (CodeExecutionResultKind r) = emptyPart\<lparr>CodeExecutionResult := Some r\<rparr>"

text \<open>
  The values that \<^verbatim>\<open>json.Marshal\<close> followed by \<^verbatim>\<open>json.Unmarshal\<close> gives back as they
  are: nil, a bool, a finite float64, a string that is well-formed UTF-8, and a \<^verbatim>\<open>[]any\<close>
  or a \<^verbatim>\<open>map[string]any\<close> that is not nil and holds such values under well-formed keys.
  An integer comes back as a float64, and a nil slice or a nil map held in an interface
  comes back as nil.
\<close>

fun json_fixed :: "goval \<Rightarrow> bool" where
  "json_fixed GNil = True"
| "json_fixed (GBool b) = True"
| "json_fixed (GFloat f) = True"
| "json_fixed (GStr s) = utf8_valid s"
| "json_fixed (GList xs) = (\<forall>x\<in>set xs. json_fixed x)"
| "json_fixed (GMap kvs) = (\<forall>kv\<in>set kvs. utf8_valid (fst kv) \<and> json_fixed (snd kv))"
| "json_fixed (GInt n) = False"
| "json_fixed GNaN = False"
| "json_fixed GNilList = False"
| "json_fixed GNilMap = False"

text \<open>
  A map field of a struct that comes back as it is: it is nil, or it has an entry and
  is made of such values. A map without entries is left out of the JSON object and comes
  back as nil.
\<close>

definition map_fixed :: "gomap option \<Rightarrow> bool" where
  "map_fixed m = (case m of None \<Rightarrow> True | Some kvs \<Rightarrow> kvs \<noteq> [] \<and> json_fixed (GMap kvs))"

text \<open>
  What the round trip needs of a part: a text part has text; the bytes of an inline file
  are not a nil slice; the strings of a function
  call, a function response, executable code and a code-execution result are well-formed
  UTF-8; the arguments of a function call and the payload of a function response come
  back from JSON as they are.
\<close>

fun preserved :: "PartKind \<Rightarrow> bool" where
  "preserved (TextKind t th) = (t \<noteq> [])"
| "preserved (InlineFileKind b) = (Data b \<noteq> None)"
| "preserved (URIFileKind f) = True"
| "preserved (FunctionCallKind c) =
     (utf8_valid (FunctionCall.ID c) \<and> utf8_valid (FunctionCall.Name c) \<and> map_fixed (Args c))"
| "preserved (FunctionResponseKind r) =
     (utf8_valid (FunctionResponse.ID r) \<and> utf8_valid (FunctionResponse.Name r)
      \<and> utf8_valid (Scheduling r) \<and> map_fixed (Response r))"
| "preserved (ExecutableCodeKind c) = (utf8_valid (Code c) \<and> utf8_valid (Language c))"
| "preserved (CodeExecutionResultKind r) = (utf8_valid (Outcome r) \<and> utf8_valid (Output r))"

text \<open>The IDs of the function calls among the parts that are in the long-running set.\<close>

fun longRunningCalls :: "PartKind list \<Rightarrow> string list \<Rightarrow> string list" where
  "longRunningCalls [] ids = []"
| "longRunningCalls (FunctionCallKind c # ks) ids =
     (if FunctionCall.ID c \<in> set ids then FunctionCall.ID c # longRunningCalls ks ids
      else longRunningCalls ks ids)"
| "longRunningCalls (k # ks) ids = longRunningCalls ks ids"

section \<open>Notions used to state the properties of the server role, and sample inputs\<close>

text \<open>The states of the final status updates among the written events, in order.\<close>

fun terminal_states :: "a2a_Event list \<Rightarrow> TaskState list" where
  "terminal_states [] = []"
| "terminal_states (StatusUpdate ev # evs) =
     (if Final ev then State (TaskStatusUpdateEvent.Status ev) # terminal_states evs
      else terminal_states evs)"
| "terminal_states (_ # evs) = terminal_states evs"

definition ex_reqCtx :: RequestContext where
  "ex_reqCtx =
     \<lparr>RequestContext.TaskID = ''task-1'', RequestContext.ContextID = ''ctx-1'',
      StoredTask = None,
      RequestContext.Message = Some (NewMessage MessageRoleUser [TextPart ''hi'' None])\<rparr>"

definition ex_error_event :: Event where
  "ex_error_event =
     (NewEvent ''inv-1'')\<lparr>Author := ''agent'', ErrorCode := ''500'', ErrorMessage := ''boom''\<rparr>"

definition ex_call_event :: Event where
  "ex_call_event =
     (NewEvent ''inv-1'')\<lparr>Author := ''agent'',
        Content := Some (NewContentFromParts
          [emptyPart\<lparr>FunctionCall := Some \<lparr>FunctionCall.ID = ''call-1'', Args = None,
              FunctionCall.Name = ''approve''\<rparr>\<rparr>] RoleModel),
        LongRunningToolIDs := [''call-1'']\<rparr>"

definition ex_text_event :: "string \<Rightarrow> Event" where
  "ex_text_event t =
     (NewEvent ''inv-1'')\<lparr>Author := ''agent'',
        Content := Some (NewContentFromParts [NewPartFromText t] RoleModel)\<rparr>"

definition ex_env :: "(Event option \<times> error option) list \<Rightarrow> ExecEnv" where
  "ex_env items =
     \<lparr>AppName = ''app'', runner_New = None, session_Get = True, session_Create = None,
      runner_Run = (\<lambda>u s c. items), NewArtifactID = ''artifact-1''\<rparr>"

definition emptyQueue :: Queue where
  "emptyQueue = \<lparr>written = [], failAfter = None\<rparr>"

text \<open>
  Whether an artifact update that is not the closing one, and whether the closing one
  (\<open>LastChunk\<close>), is among the written events.
\<close>

definition artifact_sent :: "a2a_Event list \<Rightarrow> bool" where
  "artifact_sent evs =
     (\<exists>ev\<in>set evs. case ev of ArtifactUpdate a \<Rightarrow> \<not> LastChunk a | _ \<Rightarrow> False)"

definition artifact_closed :: "a2a_Event list \<Rightarrow> bool" where
  "artifact_closed evs =
     (\<exists>ev\<in>set evs. case ev of ArtifactUpdate a \<Rightarrow> LastChunk a | _ \<Rightarrow> False)"

definition ex_nan_event :: Event where
  "ex_nan_event =
     (NewEvent ''inv-1'')\<lparr>Author := ''agent'',
        Content := Some (NewContentFromParts
          [emptyPart\<lparr>FunctionCall := Some \<lparr>FunctionCall.ID = ''call-2'',
              Args = Some [(''ratio'', GNaN)], FunctionCall.Name = ''scale''\<rparr>\<rparr>] RoleModel)\<rparr>"

section \<open>Server role: terminal state\<close>

text \<open>
  C1. A run whose first event carries an error code and whose second event contains a
  long-running function call ends with one final status update, and its state is
  input-required, not failed: \<^verbatim>\<open>process\<close> stores the input-required update under the
  key of the failed state and so overwrites the failure recorded before.
\<close>

theorem C1_error_then_input_required:
  "terminal_states (written (fst (Execute
      (ex_env [(Some ex_error_event, None), (Some ex_call_event, None)])
      ex_reqCtx emptyQueue))) = [TaskStateInputRequired]"
  by code_simp

lemma update_nonempty: "AList.update k v m \<noteq> []"
  by (cases m) auto

lemma set_nonempty_nonempty: "m \<noteq> [] \<Longrightarrow> set_nonempty k v m \<noteq> []"
  by (simp add: set_nonempty_def update_nonempty)

lemma toEventMeta_nonempty:
  "eventMeta m \<noteq> [] \<Longrightarrow> toEventMeta m e = Inr r \<Longrightarrow> r \<noteq> []"
  by (auto simp: toEventMeta_def Let_def update_nonempty set_nonempty_nonempty
           split: option.splits sum.splits if_splits)

lemma artifact_sent_append [simp]:
  "artifact_sent (xs @ ys) = (artifact_sent xs \<or> artifact_sent ys)"
  by (auto simp: artifact_sent_def)

lemma artifact_closed_append [simp]:
  "artifact_closed (xs @ ys) = (artifact_closed xs \<or> artifact_closed ys)"
  by (auto simp: artifact_closed_def)

lemma artifact_flags_Cons [simp]:
  "artifact_sent (StatusUpdate s # evs) = artifact_sent evs"
  "artifact_closed (StatusUpdate s # evs) = artifact_closed evs"
  "artifact_sent (ArtifactUpdate a # evs) = (\<not> LastChunk a \<or> artifact_sent evs)"
  "artifact_closed (ArtifactUpdate a # evs) = (LastChunk a \<or> artifact_closed evs)"
  "artifact_sent [] = False"
  "artifact_closed [] = False"
  by (auto simp: artifact_sent_def artifact_closed_def)

lemma Write_written:
  "Write q ev = Inr q' \<Longrightarrow> written q' = written q @ [ev]"
  by (auto simp: Write_def split: option.splits nat.splits)

text \<open>
  \<^verbatim>\<open>process\<close> returns an artifact update that is not a closing one and leaves an
  artifact identifier behind, or it leaves the artifact identifier as it was.
\<close>

lemma process_result:
  assumes "process newID p evt = (p', r)"
  shows "case r of
           Inr (Some a) \<Rightarrow> \<not> LastChunk a \<and> (newID \<noteq> [] \<longrightarrow> responseID p' \<noteq> [])
         | _ \<Rightarrow> responseID p' = responseID p"
  using assms
  by (auto simp: process_def Let_def NewArtifactEvent_def NewArtifactUpdateEvent_def
           split: option.splits sum.splits if_splits)

lemma write_all_written:
  "\<exists>k. written (fst (write_all q evs)) = written q @ take k evs"
proof (induction evs arbitrary: q)
  case Nil
  then show ?case by simp
next
  case (Cons ev evs)
  show ?case
  proof (cases "Write q ev")
    case (Inl e)
    then have "written (fst (write_all q (ev # evs))) = written q @ take 0 (ev # evs)"
      by simp
    then show ?thesis by blast
  next
    case (Inr q')
    obtain k where "written (fst (write_all q' evs)) = written q' @ take k evs"
      using Cons.IH by blast
    then have "written (fst (write_all q (ev # evs))) = written q @ take (Suc k) (ev # evs)"
      using Inr Write_written[OF Inr] by simp
    then show ?thesis by blast
  qed
qed

lemma not_closed_take_status: "\<not> artifact_closed (take k [StatusUpdate s])"
  by (cases k) simp_all

lemma terminal_events_closed:
  assumes "responseID p \<noteq> [] \<longrightarrow> artifact_sent (written q)"
    and "artifact_closed (written q) \<longrightarrow> artifact_sent (written q)"
  shows "artifact_closed (written (fst (write_all q (makeTerminalEvents p))))
         \<longrightarrow> artifact_sent (written (fst (write_all q (makeTerminalEvents p))))"
proof (cases "responseID p = []")
  case True
  then have "\<exists>s. makeTerminalEvents p = [StatusUpdate s]"
    by (simp add: makeTerminalEvents_def split: option.splits)
  then obtain s where "makeTerminalEvents p = [StatusUpdate s]" by blast
  moreover obtain k where
    "written (fst (write_all q (makeTerminalEvents p))) = written q @ take k (makeTerminalEvents p)"
    using write_all_written by blast
  ultimately show ?thesis
    using assms(2) not_closed_take_status by simp
next
  case False
  obtain k where
    "written (fst (write_all q (makeTerminalEvents p))) = written q @ take k (makeTerminalEvents p)"
    using write_all_written by blast
  then show ?thesis using assms(1) False by simp
qed

lemma executor_process_closed:
  assumes "newID \<noteq> []"
  shows "(responseID p \<noteq> [] \<longrightarrow> artifact_sent (written q)) \<Longrightarrow>
         (artifact_closed (written q) \<longrightarrow> artifact_sent (written q)) \<Longrightarrow>
         artifact_closed (written (fst (executor_process newID p items q)))
         \<longrightarrow> artifact_sent (written (fst (executor_process newID p items q)))"
proof (induction items arbitrary: p q)
  case Nil
  then show ?case using terminal_events_closed by simp
next
  case (Cons item items)
  obtain evt err where item: "item = (evt, err)" by (cases item)
  show ?case
  proof (cases err)
    case (Some e)
    then show ?thesis using Cons.prems item
      by (auto dest!: Write_written split: sum.splits)
  next
    case None
    obtain p' r where pr: "process newID p evt = (p', r)"
      by (cases "process newID p evt")
    note res = process_result[OF pr]
    show ?thesis
    proof (cases r)
      case (Inl e)
      then show ?thesis using Cons.prems item None pr
        by (auto dest!: Write_written split: sum.splits)
    next
      case (Inr ro)
      show ?thesis
      proof (cases ro)
        case None': None
        have "responseID p' = responseID p" using res Inr None' by simp
        then show ?thesis using Cons.IH[of p' q] Cons.prems item None pr Inr None'
          by simp
      next
        case (Some a)
        have a: "\<not> LastChunk a" "responseID p' \<noteq> []" using res Inr Some assms by auto
        show ?thesis
        proof (cases "Write q (ArtifactUpdate a)")
          case (Inl e)
          then show ?thesis using Cons.prems item None pr Inr Some by simp
        next
          case Inr': (Inr q')
          have w: "written q' = written q @ [ArtifactUpdate a]"
            using Write_written[OF Inr'] .
          have "artifact_sent (written q')" using w a by simp
          then show ?thesis using Cons.IH[of p' q'] item None pr Inr Some Inr' by simp
        qed
      qed
    qed
  qed
qed

lemma Execute_closed:
  assumes "NewArtifactID env \<noteq> []"
    and "artifact_closed (written queue) \<longrightarrow> artifact_sent (written queue)"
  shows "artifact_closed (written (fst (Execute env rc queue)))
         \<longrightarrow> artifact_sent (written (fst (Execute env rc queue)))"
proof -
  let ?im = "toInvocationMeta (AppName env) rc"
  have step: "artifact_closed (written (fst (executor_process (NewArtifactID env)
                 (newEventProcessor rc ?im) items q)))
              \<longrightarrow> artifact_sent (written (fst (executor_process (NewArtifactID env)
                 (newEventProcessor rc ?im) items q)))"
    if "artifact_closed (written q) \<longrightarrow> artifact_sent (written q)" for items q
    using executor_process_closed[OF assms(1), of "newEventProcessor rc ?im" q items] that
    by (simp add: newEventProcessor_def)
  show ?thesis
    using assms(2) step
    by (auto simp: Execute_def Let_def dest!: Write_written
             split: option.splits sum.splits if_splits)
qed

lemma Write_ok:
  "failAfter q = None \<Longrightarrow> Write q ev = Inr (q\<lparr>written := written q @ [ev]\<rparr>)"
  by (simp add: Write_def)

section \<open>Server role: the event sequence of a run\<close>

text \<open>
  C4, as the code has it. When the local run yields exactly two events with parts, no
  error code and no long-running function call, and nothing fails on the way (the request
  message decodes, the runner and the session are there, parts and metadata encode, the
  queue takes every write), the events written are: Submitted if the request has no stored
  task; Working; an artifact update for a new artifact (\<open>Append\<close> unset); an update of
  the same artifact (\<open>Append\<close> set); an empty closing update of the same artifact
  (\<open>LastChunk\<close> set); one final Completed update. And for every execution, a closing
  update is written only if an artifact update was written.
\<close>

theorem C4_two_content_events:
  assumes msg: "RequestContext.Message rc = Some msg"
    and dec: "toGenAIContent msg = Inr content"
    and rn: "runner_New env = None"
    and sess: "session_Get env \<or> session_Create env = None"
    and q: "failAfter queue = None"
    and run: "runner_Run env (userID (toInvocationMeta (AppName env) rc))
                (sessionID (toInvocationMeta (AppName env) rc)) content
              = [(Some e1, None), (Some e2, None)]"
    and c1: "Content e1 = Some c1" "Content.Parts c1 \<noteq> []" "ErrorCode e1 = []"
    and c2: "Content e2 = Some c2" "Content.Parts c2 \<noteq> []" "ErrorCode e2 = []"
    and nolr: "\<not> isInputRequired e1 (Content.Parts c1)"
              "\<not> isInputRequired e2 (Content.Parts c2)"
    and enc: "toA2AParts (Content.Parts c1) (LongRunningToolIDs e1) = Inr ps1"
             "toA2AParts (Content.Parts c2) (LongRunningToolIDs e2) = Inr ps2"
    and m: "toEventMeta (toInvocationMeta (AppName env) rc) e1 = Inr m1"
           "toEventMeta (toInvocationMeta (AppName env) rc) e2 = Inr m2"
    and nid: "NewArtifactID env \<noteq> []"
  shows "Execute env rc queue =
    (queue\<lparr>written := written queue @
        (if StoredTask rc = None
         then [StatusUpdate (NewStatusUpdateEvent rc TaskStateSubmitted None)] else []) @
        [StatusUpdate ((NewStatusUpdateEvent rc TaskStateWorking None)
           \<lparr>TaskStatusUpdateEvent.Metadata :=
              Some (eventMeta (toInvocationMeta (AppName env) rc))\<rparr>),
         ArtifactUpdate ((NewArtifactEvent (NewArtifactID env) rc ps1)
           \<lparr>TaskArtifactUpdateEvent.Metadata := Some m1\<rparr>),
         ArtifactUpdate ((NewArtifactUpdateEvent rc (NewArtifactID env) ps2)
           \<lparr>TaskArtifactUpdateEvent.Metadata := Some m2\<rparr>),
         ArtifactUpdate ((NewArtifactUpdateEvent rc (NewArtifactID env) [])
           \<lparr>LastChunk := True\<rparr>),
         StatusUpdate ((NewStatusUpdateEvent rc TaskStateCompleted None)
           \<lparr>TaskStatusUpdateEvent.Metadata :=
              Some (eventMeta (toInvocationMeta (AppName env) rc)),
            Final := True\<rparr>)]\<rparr>, None)
    \<and> (\<forall>env' rc' queue'.
          NewArtifactID env' \<noteq> [] \<and> \<not> artifact_closed (written queue') \<longrightarrow>
          artifact_closed (written (fst (Execute env' rc' queue'))) \<longrightarrow>
          artifact_sent (written (fst (Execute env' rc' queue'))))"
proof
  let ?im = "toInvocationMeta (AppName env) rc"
  have ne: "eventMeta ?im \<noteq> []" by (simp add: toInvocationMeta_def)
  have m1: "m1 \<noteq> []" and m2: "m2 \<noteq> []"
    using toEventMeta_nonempty[OF ne] m by blast+
  have prep: "prepareSession env ?im = None"
    using sess by (auto simp: prepareSession_def)
  show "Execute env rc queue =
    (queue\<lparr>written := written queue @
        (if StoredTask rc = None
         then [StatusUpdate (NewStatusUpdateEvent rc TaskStateSubmitted None)] else []) @
        [StatusUpdate ((NewStatusUpdateEvent rc TaskStateWorking None)
           \<lparr>TaskStatusUpdateEvent.Metadata := Some (eventMeta ?im)\<rparr>),
         ArtifactUpdate ((NewArtifactEvent (NewArtifactID env) rc ps1)
           \<lparr>TaskArtifactUpdateEvent.Metadata := Some m1\<rparr>),
         ArtifactUpdate ((NewArtifactUpdateEvent rc (NewArtifactID env) ps2)
           \<lparr>TaskArtifactUpdateEvent.Metadata := Some m2\<rparr>),
         ArtifactUpdate ((NewArtifactUpdateEvent rc (NewArtifactID env) [])
           \<lparr>LastChunk := True\<rparr>),
         StatusUpdate ((NewStatusUpdateEvent rc TaskStateCompleted None)
           \<lparr>TaskStatusUpdateEvent.Metadata := Some (eventMeta ?im),
            Final := True\<rparr>)]\<rparr>, None)"
    using msg dec rn q run c1 c2 nolr enc m nid m1 m2 prep
    by (simp add: Execute_def Write_def process_def newEventProcessor_def
          makeTerminalEvents_def NewArtifactEvent_def NewArtifactUpdateEvent_def
          NewStatusUpdateEvent_def Let_def)
next
  show "\<forall>env' rc' queue'.
          NewArtifactID env' \<noteq> [] \<and> \<not> artifact_closed (written queue') \<longrightarrow>
          artifact_closed (written (fst (Execute env' rc' queue'))) \<longrightarrow>
          artifact_sent (written (fst (Execute env' rc' queue')))"
    using Execute_closed by blast
qed

theorem C4_two_content_events_witness:
  "map (\<lambda>ev. case ev of
          StatusUpdate s \<Rightarrow> (''status'', State (TaskStatusUpdateEvent.Status s), Final s, False)
        | ArtifactUpdate a \<Rightarrow> (Artifact.ID (Artifact a), TaskStateWorking, Append a, LastChunk a)
        | _ \<Rightarrow> ([], TaskStateWorking, False, False))
     (written (fst (Execute
        (ex_env [(Some (ex_text_event ''one''), None), (Some (ex_text_event ''two''), None)])
        ex_reqCtx emptyQueue)))
   = [(''status'', TaskStateSubmitted, False, False),
      (''status'', TaskStateWorking, False, False),
      (''artifact-1'', TaskStateWorking, False, False),
      (''artifact-1'', TaskStateWorking, True, False),
      (''artifact-1'', TaskStateWorking, True, True),
      (''status'', TaskStateCompleted, True, False)]
   \<and> artifact_sent (written (fst (Execute
        (ex_env [(Some (ex_text_event ''one''), None), (Some (ex_text_event ''two''), None)])
        ex_reqCtx emptyQueue)))"
proof -
  let ?env = "ex_env [(Some (ex_text_event ''one''), None), (Some (ex_text_event ''two''), None)]"
  let ?im = "toInvocationMeta (AppName ?env) ex_reqCtx"
  let ?c1 = "NewContentFromParts [NewPartFromText ''one''] RoleModel"
  let ?c2 = "NewContentFromParts [NewPartFromText ''two''] RoleModel"
  let ?m = "[(''adk_app_name'', GStr ''app''), (''adk_user_id'', GStr ''A2A_USER_ctx-1''),
             (''adk_session_id'', GStr ''ctx-1''), (''adk_invocation_id'', GStr ''inv-1''),
             (''adk_author'', GStr ''agent'')]"
  have h1: "RequestContext.Message ex_reqCtx = Some (NewMessage MessageRoleUser [TextPart ''hi'' None])"
    by (simp add: ex_reqCtx_def)
  have h2: "toGenAIContent (NewMessage MessageRoleUser [TextPart ''hi'' None])
            = Inr \<lparr>Content.Parts = [NewPartFromText ''hi''], Content.Role = RoleUser\<rparr>"
    by (simp add: toGenAIContent_def NewMessage_def toGenAIPart_def)
  have h3: "runner_New ?env = None" by (simp add: ex_env_def)
  have h4: "session_Get ?env \<or> session_Create ?env = None" by (simp add: ex_env_def)
  have h5: "failAfter emptyQueue = None" by (simp add: emptyQueue_def)
  have h6: "runner_Run ?env (userID ?im) (sessionID ?im)
              \<lparr>Content.Parts = [NewPartFromText ''hi''], Content.Role = RoleUser\<rparr>
            = [(Some (ex_text_event ''one''), None), (Some (ex_text_event ''two''), None)]"
    by (simp add: ex_env_def)
  have h7: "Content (ex_text_event ''one'') = Some ?c1" "Content.Parts ?c1 \<noteq> []"
           "ErrorCode (ex_text_event ''one'') = []"
    by (simp_all add: ex_text_event_def NewEvent_def NewContentFromParts_def)
  have h8: "Content (ex_text_event ''two'') = Some ?c2" "Content.Parts ?c2 \<noteq> []"
           "ErrorCode (ex_text_event ''two'') = []"
    by (simp_all add: ex_text_event_def NewEvent_def NewContentFromParts_def)
  have h9: "\<not> isInputRequired (ex_text_event ''one'') (Content.Parts ?c1)"
           "\<not> isInputRequired (ex_text_event ''two'') (Content.Parts ?c2)"
    by (simp_all add: isInputRequired_def NewContentFromParts_def NewPartFromText_def
          emptyPart_def)
  have h10: "toA2AParts (Content.Parts ?c1) (LongRunningToolIDs (ex_text_event ''one''))
             = Inr [TextPart ''one'' None]"
            "toA2AParts (Content.Parts ?c2) (LongRunningToolIDs (ex_text_event ''two''))
             = Inr [TextPart ''two'' None]"
    by (simp_all add: NewContentFromParts_def NewPartFromText_def emptyPart_def toA2APart_def)
  have h11: "toEventMeta ?im (ex_text_event ''one'') = Inr ?m"
            "toEventMeta ?im (ex_text_event ''two'') = Inr ?m"
    by (simp_all add: toEventMeta_def toInvocationMeta_def ex_text_event_def NewEvent_def
          ex_env_def ex_reqCtx_def set_nonempty_def ToA2AMetaKey_def)
  have h12: "NewArtifactID ?env \<noteq> []" by (simp add: ex_env_def)
  have h13: "\<not> artifact_closed (written emptyQueue)" by (simp add: emptyQueue_def)
  note C4 = C4_two_content_events[OF h1 h2 h3 h4 h5 h6 h7 h8 h9 h10 h11 h12]
  have seq: "Execute ?env ex_reqCtx emptyQueue = (emptyQueue\<lparr>written := written emptyQueue @
        (if StoredTask ex_reqCtx = None
         then [StatusUpdate (NewStatusUpdateEvent ex_reqCtx TaskStateSubmitted None)] else []) @
        [StatusUpdate ((NewStatusUpdateEvent ex_reqCtx TaskStateWorking None)
           \<lparr>TaskStatusUpdateEvent.Metadata := Some (eventMeta ?im)\<rparr>),
         ArtifactUpdate ((NewArtifactEvent (NewArtifactID ?env) ex_reqCtx [TextPart ''one'' None])
           \<lparr>TaskArtifactUpdateEvent.Metadata := Some ?m\<rparr>),
         ArtifactUpdate ((NewArtifactUpdateEvent ex_reqCtx (NewArtifactID ?env) [TextPart ''two'' None])
           \<lparr>TaskArtifactUpdateEvent.Metadata := Some ?m\<rparr>),
         ArtifactUpdate ((NewArtifactUpdateEvent ex_reqCtx (NewArtifactID ?env) [])
           \<lparr>LastChunk := True\<rparr>),
         StatusUpdate ((NewStatusUpdateEvent ex_reqCtx TaskStateCompleted None)
           \<lparr>TaskStatusUpdateEvent.Metadata := Some (eventMeta ?im),
            Final := True\<rparr>)]\<rparr>, None)"
    using C4 by blast
  have only: "artifact_closed (written (fst (Execute ?env ex_reqCtx emptyQueue)))
       \<longrightarrow> artifact_sent (written (fst (Execute ?env ex_reqCtx emptyQueue)))"
    using C4 h12 h13 by blast
  have cl: "artifact_closed (written (fst (Execute ?env ex_reqCtx emptyQueue)))"
    unfolding seq
    by (simp add: emptyQueue_def NewArtifactUpdateEvent_def NewArtifactEvent_def)
  then have "artifact_sent (written (fst (Execute ?env ex_reqCtx emptyQueue)))"
    using only by blast
  then show ?thesis
    unfolding seq
    by (simp add: emptyQueue_def ex_reqCtx_def ex_env_def NewStatusUpdateEvent_def
          NewArtifactEvent_def NewArtifactUpdateEvent_def)
qed

text \<open>
  The claim as stated fails: two events with parts and no error code, the first with a
  long-running function call, end in input-required; and two such events, the first with
  function-call arguments that JSON cannot encode, end in failed after Working alone.
\<close>

theorem C4_counterexample:
  "ErrorCode ex_call_event = [] \<and> ErrorCode ex_nan_event = []
   \<and> ErrorCode (ex_text_event ''done'') = []
   \<and> map_option Content.Parts (Content ex_call_event) \<noteq> Some []
   \<and> map_option Content.Parts (Content ex_nan_event) \<noteq> Some []
   \<and> Content ex_call_event \<noteq> None \<and> Content ex_nan_event \<noteq> None
   \<and> Content (ex_text_event ''done'') \<noteq> None
   \<and> terminal_states (written (fst (Execute
        (ex_env [(Some ex_call_event, None), (Some (ex_text_event ''done''), None)])
        ex_reqCtx emptyQueue))) = [TaskStateInputRequired]
   \<and> terminal_states (written (fst (Execute
        (ex_env [(Some ex_nan_event, None), (Some (ex_text_event ''done''), None)])
        ex_reqCtx emptyQueue))) = [TaskStateFailed]
   \<and> \<not> artifact_sent (written (fst (Execute
        (ex_env [(Some ex_nan_event, None), (Some (ex_text_event ''done''), None)])
        ex_reqCtx emptyQueue)))"
  by code_simp

section \<open>Client role: the generic diff\<close>

lemma missingParts_contribution:
  "missingParts ctx es = concat (map (contribution ctx) es)"
  by (induction es)
     (auto simp: contribution_def presented_def Let_def presentAsUserMessage_def
           NewContentFromParts_def
           split: option.splits sum.splits)

lemma missingParts_append:
  "missingParts ctx (es1 @ es2) = missingParts ctx es1 @ missingParts ctx es2"
  by (simp add: missingParts_contribution)

lemma lastRemoteResponse_none:
  "\<forall>e\<in>set es. Author e \<noteq> name \<Longrightarrow> n \<le> length es \<Longrightarrow>
   lastRemoteResponse name es n = (- 1, [])"
  by (induction n) auto

lemma lastRemoteResponse_found:
  assumes "Author r = name" and "\<forall>e\<in>set post. Author e \<noteq> name"
  shows "k \<le> length post \<Longrightarrow>
         lastRemoteResponse name (pre @ r # post) (Suc (length pre + k))
         = (int (length pre), snd (GetA2ATaskInfo r))"
proof (induction k)
  case 0
  then show ?case using assms(1) by (simp add: nth_append)
next
  case (Suc k)
  then have "k < length post" by simp
  then have "(pre @ r # post) ! (Suc (length pre + k)) = post ! k"
    by (simp add: nth_append)
  moreover have "Author (post ! k) \<noteq> name"
    using assms(2) \<open>k < length post\<close> by simp
  ultimately show ?case using Suc by simp
qed

text \<open>
  C5. The generic diff holds the parts of the events after the last event written by the
  remote agent, in the order of the log, and nothing of that event or of the events before
  it; the context ID returned is the one in the metadata of that event. With no event
  of the remote agent in the log, every event is taken and the context ID is empty.
\<close>

theorem C5_generic_diff:
  assumes "\<forall>e\<in>set post. Author e \<noteq> AgentName ctx"
  shows "toMissingRemoteSessionParts ctx post = (concat (map (contribution ctx) post), [])
    \<and> (Author r = AgentName ctx \<longrightarrow>
         toMissingRemoteSessionParts ctx (pre @ r # post)
         = (concat (map (contribution ctx) post), snd (GetA2ATaskInfo r)))"
proof
  show "toMissingRemoteSessionParts ctx post = (concat (map (contribution ctx) post), [])"
    using lastRemoteResponse_none[OF assms, of "length post"]
    by (simp add: toMissingRemoteSessionParts_def missingParts_contribution)
next
  show "Author r = AgentName ctx \<longrightarrow>
         toMissingRemoteSessionParts ctx (pre @ r # post)
         = (concat (map (contribution ctx) post), snd (GetA2ATaskInfo r))"
  proof
    assume r: "Author r = AgentName ctx"
    have "lastRemoteResponse (AgentName ctx) (pre @ r # post) (length (pre @ r # post))
          = (int (length pre), snd (GetA2ATaskInfo r))"
      using lastRemoteResponse_found[OF r assms, of "length post" pre] by simp
    then show "toMissingRemoteSessionParts ctx (pre @ r # post)
         = (concat (map (contribution ctx) post), snd (GetA2ATaskInfo r))"
      by (simp add: toMissingRemoteSessionParts_def missingParts_contribution nat_add_distrib)
  qed
qed

theorem C5_generic_diff_witness:
  "toMissingRemoteSessionParts (ex_ctx [])
     [newEventFromParts ''user'' [NewPartFromText ''hello''],
      (newEventFromParts ''remote-agent'' [NewPartFromText ''hi''])
        \<lparr>CustomMetadata := Some (ToCustomMetadata ''task-1'' ''ctx-1'')\<rparr>,
      newEventFromParts ''user'' [NewPartFromText ''foo''],
      newEventFromParts ''user'' [NewPartFromText ''bar'']]
   = ([TextPart ''foo'' None, TextPart ''bar'' None], ''ctx-1'')"
proof -
  let ?post = "[newEventFromParts ''user'' [NewPartFromText ''foo''],
                newEventFromParts ''user'' [NewPartFromText ''bar'']]"
  let ?r = "(newEventFromParts ''remote-agent'' [NewPartFromText ''hi''])
              \<lparr>CustomMetadata := Some (ToCustomMetadata ''task-1'' ''ctx-1'')\<rparr>"
  let ?pre = "[newEventFromParts ''user'' [NewPartFromText ''hello'']]"
  have h: "\<forall>e\<in>set ?post. Author e \<noteq> AgentName (ex_ctx [])"
    by (simp add: newEventFromParts_def ex_ctx_def)
  have r: "Author ?r = AgentName (ex_ctx [])"
    by (simp add: newEventFromParts_def ex_ctx_def)
  have c: "concat (map (contribution (ex_ctx [])) ?post)
           = [TextPart ''foo'' None, TextPart ''bar'' None]"
    by (simp add: contribution_def presented_def newEventFromParts_def NewEvent_def
          NewContentFromParts_def NewPartFromText_def emptyPart_def toA2APart_def)
  have i: "snd (GetA2ATaskInfo ?r) = ''ctx-1''"
    by (simp add: GetA2ATaskInfo_def ToCustomMetadata_def meta_string_def
          customMetaTaskIDKey_def customMetaContextIDKey_def ToADKMetaKey_def)
  show ?thesis
    using C5_generic_diff[OF h, of ?r ?pre] r c i by simp
qed

section \<open>Client role: an event whose parts cannot be encoded\<close>

text \<open>
  C10. If the parts of one event of the generic diff cannot be encoded, the event adds
  nothing to the result, and the events before and after it add what they add without
  it. The function returns parts and a context ID and has no way to return the error.
\<close>

theorem C10_encoding_failure_skipped:
  assumes "Content (presented ctx e) = Some c"
    and "toA2AParts (Content.Parts c) (LongRunningToolIDs (presented ctx e)) = Inl err"
  shows "contribution ctx e = []
    \<and> missingParts ctx (es1 @ e # es2) = missingParts ctx es1 @ missingParts ctx es2
    \<and> ((\<forall>x\<in>set (es1 @ e # es2). Author x \<noteq> AgentName ctx) \<longrightarrow>
         toMissingRemoteSessionParts ctx (es1 @ e # es2)
         = toMissingRemoteSessionParts ctx (es1 @ es2))"
proof -
  have c: "contribution ctx e = []"
    using assms by (simp add: contribution_def)
  have m: "missingParts ctx (es1 @ e # es2) = missingParts ctx es1 @ missingParts ctx es2"
    using c by (simp add: missingParts_contribution)
  have t: "toMissingRemoteSessionParts ctx (es1 @ e # es2)
           = toMissingRemoteSessionParts ctx (es1 @ es2)"
    if n: "\<forall>x\<in>set (es1 @ e # es2). Author x \<noteq> AgentName ctx"
  proof -
    have n': "\<forall>x\<in>set (es1 @ es2). Author x \<noteq> AgentName ctx" using n by auto
    have "lastRemoteResponse (AgentName ctx) (es1 @ e # es2) (length (es1 @ e # es2)) = (- 1, [])"
      using lastRemoteResponse_none[OF n] by blast
    moreover have "lastRemoteResponse (AgentName ctx) (es1 @ es2) (length (es1 @ es2)) = (- 1, [])"
      using lastRemoteResponse_none[OF n'] by blast
    ultimately show ?thesis
      using m by (simp add: toMissingRemoteSessionParts_def missingParts_append)
  qed
  show ?thesis using c m t by blast
qed

theorem C10_encoding_failure_skipped_witness:
  "toMissingRemoteSessionParts (ex_ctx [])
     [newEventFromParts ''user'' [NewPartFromText ''foo''],
      newEventFromParts ''user'' [NewPartFromText ''lost'', responsePart ''call-1'' [(''ratio'', GNaN)]],
      newEventFromParts ''user'' [NewPartFromText ''bar'']]
   = ([TextPart ''foo'' None, TextPart ''bar'' None], [])"
proof -
  let ?c = "NewContentFromParts
              [NewPartFromText ''lost'', responsePart ''call-1'' [(''ratio'', GNaN)]] RoleUser"
  let ?e = "newEventFromParts ''user''
              [NewPartFromText ''lost'', responsePart ''call-1'' [(''ratio'', GNaN)]]"
  let ?es1 = "[newEventFromParts ''user'' [NewPartFromText ''foo'']]"
  let ?es2 = "[newEventFromParts ''user'' [NewPartFromText ''bar'']]"
  have h1: "Content (presented (ex_ctx []) ?e) = Some ?c"
    by (simp add: presented_def newEventFromParts_def)
  have h2: "toA2AParts (Content.Parts ?c) (LongRunningToolIDs (presented (ex_ctx []) ?e))
            = Inl (Error ''json: unsupported value: NaN'')"
    by (simp add: presented_def newEventFromParts_def NewContentFromParts_def
          NewPartFromText_def responsePart_def emptyPart_def toA2APart_def toA2ADataPart_def
          toMapStructure_def json_Marshal_def FunctionResponse_json_def map_json_def
          omitempty_def)
  have h3: "\<forall>x\<in>set (?es1 @ ?e # ?es2). Author x \<noteq> AgentName (ex_ctx [])"
    by (simp add: newEventFromParts_def ex_ctx_def)
  have "toMissingRemoteSessionParts (ex_ctx []) (?es1 @ ?e # ?es2)
        = toMissingRemoteSessionParts (ex_ctx []) (?es1 @ ?es2)"
    using C10_encoding_failure_skipped[OF h1 h2, of ?es1 ?es2] h3 by blast
  moreover have "toMissingRemoteSessionParts (ex_ctx []) (?es1 @ ?es2)
        = ([TextPart ''foo'' None, TextPart ''bar'' None], [])"
    by (simp add: toMissingRemoteSessionParts_def newEventFromParts_def NewEvent_def ex_ctx_def
          NewContentFromParts_def NewPartFromText_def emptyPart_def toA2APart_def)
  ultimately show ?thesis by simp
qed

section \<open>Client role: events of other agents\<close>

lemma presentPart_describe:
  "presentPart a p = (if described p then NewPartFromText (describe a p) else p)"
  by (auto simp: presentPart_def described_def describe_def split: option.splits)

lemma describe_nonempty: "described p \<Longrightarrow> describe a p \<noteq> []"
  by (auto simp: described_def describe_def split: option.splits)

lemma toA2APart_text:
  "t \<noteq> [] \<Longrightarrow> toA2APart (NewPartFromText t) ids = Inr (TextPart t None)"
  by (simp add: toA2APart_def NewPartFromText_def emptyPart_def)

lemma toA2AParts_described:
  "\<forall>p\<in>set ps. described p \<Longrightarrow>
   toA2AParts (map (presentPart a) ps) ids = Inr (map (\<lambda>p. TextPart (describe a p) None) ps)"
  by (induction ps) (simp_all add: presentPart_describe describe_nonempty toA2APart_text)

lemma presented_other:
  assumes "Author e \<noteq> ''user''" and "Author e \<noteq> AgentName ctx"
  shows "Content (presented ctx e) =
           (case Content e of
              None \<Rightarrow> None
            | Some c \<Rightarrow>
                if filter (\<lambda>p. \<not> Thought p) (Content.Parts c) = [] then None
                else Some (NewContentFromParts
                       (NewPartFromText ''For context:''
                        # map (presentPart (Author e))
                            (filter (\<lambda>p. \<not> Thought p) (Content.Parts c))) RoleUser))"
    and "LongRunningToolIDs (presented ctx e) = []"
  using assms
  by (auto simp: presented_def presentAsUserMessage_def NewEvent_def Let_def
           split: option.splits)

text \<open>
  C6, as the code has it. An event written by neither the user nor the remote agent adds
  to the diff: nothing, if it has no content or all its parts are thoughts; otherwise the
  text part \<open>For context:\<close> followed by the encoding of its other parts in order, where a
  part with text, a function call or a function response has become a text line that
  names the author and a part of any other kind is encoded as it is. When all the parts
  kept are of the three kinds, the result is the marker and one text line for each.
\<close>

theorem C6_other_agent_events:
  assumes "Author e \<noteq> ''user''" and "Author e \<noteq> AgentName ctx"
  shows "(Content e = None \<longrightarrow> contribution ctx e = [])
    \<and> (\<forall>c. Content e = Some c \<longrightarrow>
         (filter (\<lambda>p. \<not> Thought p) (Content.Parts c) = [] \<longrightarrow> contribution ctx e = [])
       \<and> (filter (\<lambda>p. \<not> Thought p) (Content.Parts c) \<noteq> [] \<longrightarrow>
           (\<forall>ps. toA2AParts
                   (map (\<lambda>p. if described p then NewPartFromText (describe (Author e) p) else p)
                      (filter (\<lambda>p. \<not> Thought p) (Content.Parts c))) [] = Inr ps
                 \<longrightarrow> contribution ctx e = TextPart ''For context:'' None # ps)
         \<and> ((\<forall>p\<in>set (filter (\<lambda>p. \<not> Thought p) (Content.Parts c)). described p) \<longrightarrow>
              contribution ctx e
              = TextPart ''For context:'' None
                # map (\<lambda>p. TextPart (describe (Author e) p) None)
                    (filter (\<lambda>p. \<not> Thought p) (Content.Parts c)))))
    \<and> missingParts ctx (e # es) = contribution ctx e @ missingParts ctx es"
proof -
  note pr = presented_other[OF assms]
  have a: "Content e = None \<longrightarrow> contribution ctx e = []"
    using pr by (simp add: contribution_def)
  have b: "contribution ctx e = []"
    if "Content e = Some c" "filter (\<lambda>p. \<not> Thought p) (Content.Parts c) = []" for c
    using pr that by (simp add: contribution_def)
  have marker: "toA2APart (NewPartFromText ''For context:'') [] = Inr (TextPart ''For context:'' None)"
    by (simp add: toA2APart_text)
  have pp: "presentPart (Author e)
            = (\<lambda>p. if described p then NewPartFromText (describe (Author e) p) else p)"
    by (rule ext) (simp add: presentPart_describe)
  have c: "contribution ctx e = TextPart ''For context:'' None # ps"
    if "Content e = Some c" "filter (\<lambda>p. \<not> Thought p) (Content.Parts c) \<noteq> []"
       "toA2AParts
          (map (\<lambda>p. if described p then NewPartFromText (describe (Author e) p) else p)
             (filter (\<lambda>p. \<not> Thought p) (Content.Parts c))) [] = Inr ps" for c ps
    using pr that marker by (simp add: contribution_def NewContentFromParts_def pp)
  have d: "contribution ctx e
           = TextPart ''For context:'' None
             # map (\<lambda>p. TextPart (describe (Author e) p) None)
                 (filter (\<lambda>p. \<not> Thought p) (Content.Parts c))"
    if "Content e = Some c" "filter (\<lambda>p. \<not> Thought p) (Content.Parts c) \<noteq> []"
       "\<forall>p\<in>set (filter (\<lambda>p. \<not> Thought p) (Content.Parts c)). described p" for c
    using c[OF that(1,2)] toA2AParts_described[OF that(3), of "Author e" "[]"]
    by (simp add: pp)
  have m: "missingParts ctx (e # es) = contribution ctx e @ missingParts ctx es"
    by (simp add: missingParts_contribution)
  show ?thesis using a b c d m by blast
qed

theorem C6_other_agent_events_witness:
  "fst (toMissingRemoteSessionParts (ex_ctx [])
     [newEventFromParts ''another-agent''
        [(NewPartFromText ''thinking...'')\<lparr>Thought := True\<rparr>, NewPartFromText ''foo'',
         emptyPart\<lparr>FunctionCall := Some \<lparr>FunctionCall.ID = ''c1'',
            Args = Some [(''city'', GStr ''Warsaw'')], FunctionCall.Name = ''get_weather''\<rparr>\<rparr>],
      newEventFromParts ''another-agent'' [(NewPartFromText ''hidden'')\<lparr>Thought := True\<rparr>],
      newEventFromParts ''another-agent'' [],
      newEventFromParts ''another-agent''
        [emptyPart\<lparr>ExecutableCode := Some \<lparr>Code = ''print(1)'', Language = ''PYTHON''\<rparr>\<rparr>]])
   = [TextPart ''For context:'' None,
      TextPart ''[another-agent] said: foo'' None,
      TextPart ''[another-agent] called tool get_weather with parameters: map[city:Warsaw]'' None,
      TextPart ''For context:'' None,
      DataPart (Some [(''code'', GStr ''print(1)''), (''language'', GStr ''PYTHON'')])
        (Some [(''adk_type'', GStr ''executable_code'')])]"
proof -
  let ?ps = "[(NewPartFromText ''thinking...'')\<lparr>Thought := True\<rparr>, NewPartFromText ''foo'',
         emptyPart\<lparr>FunctionCall := Some \<lparr>FunctionCall.ID = ''c1'',
            Args = Some [(''city'', GStr ''Warsaw'')], FunctionCall.Name = ''get_weather''\<rparr>\<rparr>]"
  let ?code = "emptyPart\<lparr>ExecutableCode := Some \<lparr>Code = ''print(1)'', Language = ''PYTHON''\<rparr>\<rparr>"
  let ?e = "newEventFromParts ''another-agent'' ?ps"
  let ?t = "newEventFromParts ''another-agent'' [(NewPartFromText ''hidden'')\<lparr>Thought := True\<rparr>]"
  let ?n = "newEventFromParts ''another-agent'' []"
  let ?f = "newEventFromParts ''another-agent'' [?code]"
  let ?ctx = "ex_ctx []"
  have h1: "Author ?e \<noteq> ''user''" "Author ?t \<noteq> ''user''" "Author ?n \<noteq> ''user''"
    "Author ?f \<noteq> ''user''"
    by (simp_all add: newEventFromParts_def)
  have h2: "Author ?e \<noteq> AgentName ?ctx" "Author ?t \<noteq> AgentName ?ctx"
    "Author ?n \<noteq> AgentName ?ctx" "Author ?f \<noteq> AgentName ?ctx"
    by (simp_all add: newEventFromParts_def ex_ctx_def)
  have ce: "Content ?e = Some (NewContentFromParts ?ps RoleModel)"
    by (simp add: newEventFromParts_def)
  have ct: "Content ?t = Some (NewContentFromParts [(NewPartFromText ''hidden'')\<lparr>Thought := True\<rparr>] RoleModel)"
    by (simp add: newEventFromParts_def)
  have cn: "Content ?n = None"
    by (simp add: newEventFromParts_def NewEvent_def)
  have cf: "Content ?f = Some (NewContentFromParts [?code] RoleModel)"
    by (simp add: newEventFromParts_def)
  have kept: "filter (\<lambda>p. \<not> Thought p) (Content.Parts (NewContentFromParts ?ps RoleModel))
              = [NewPartFromText ''foo'',
                 emptyPart\<lparr>FunctionCall := Some \<lparr>FunctionCall.ID = ''c1'',
                   Args = Some [(''city'', GStr ''Warsaw'')], FunctionCall.Name = ''get_weather''\<rparr>\<rparr>]"
    by (simp add: NewContentFromParts_def NewPartFromText_def emptyPart_def)
  let ?c = "NewContentFromParts ?ps RoleModel"
  let ?k = "filter (\<lambda>p. \<not> Thought p) (Content.Parts ?c)"
  have k1: "?k \<noteq> []" using kept by simp
  have k2: "\<forall>p\<in>set ?k. described p"
    unfolding kept by (simp add: described_def NewPartFromText_def emptyPart_def)
  have "contribution ?ctx ?e
        = TextPart ''For context:'' None # map (\<lambda>p. TextPart (describe (Author ?e) p) None) ?k"
    using C6_other_agent_events[OF h1(1) h2(1), of "[]"] ce k1 k2 by blast
  then have e: "contribution ?ctx ?e
           = [TextPart ''For context:'' None,
              TextPart ''[another-agent] said: foo'' None,
              TextPart ''[another-agent] called tool get_weather with parameters: map[city:Warsaw]'' None]"
    unfolding kept
    by (simp add: describe_def NewPartFromText_def emptyPart_def newEventFromParts_def
          sort_keys_def fmt_map_def)
  let ?ct = "NewContentFromParts [(NewPartFromText ''hidden'')\<lparr>Thought := True\<rparr>] RoleModel"
  have k3: "filter (\<lambda>p. \<not> Thought p) (Content.Parts ?ct) = []"
    by (simp add: NewContentFromParts_def NewPartFromText_def emptyPart_def)
  have t: "contribution ?ctx ?t = []"
    using C6_other_agent_events[OF h1(2) h2(2), of "[]"] ct k3 by blast
  have n: "contribution ?ctx ?n = []"
    using C6_other_agent_events[OF h1(3) h2(3), of "[]"] cn by blast
  let ?cf = "NewContentFromParts [?code] RoleModel"
  let ?kf = "filter (\<lambda>p. \<not> Thought p) (Content.Parts ?cf)"
  have k4: "?kf \<noteq> []"
    by (simp add: NewContentFromParts_def emptyPart_def)
  have u: "utf8_coerce ''print(1)'' = ''print(1)''" "utf8_coerce ''PYTHON'' = ''PYTHON''"
    by code_simp+
  have k5: "toA2AParts
              (map (\<lambda>p. if described p then NewPartFromText (describe (Author ?f) p) else p) ?kf) []
            = Inr [DataPart (Some [(''code'', GStr ''print(1)''), (''language'', GStr ''PYTHON'')])
                     (Some [(''adk_type'', GStr ''executable_code'')])]"
    by (simp add: u NewContentFromParts_def emptyPart_def described_def toA2APart_def
          toA2ADataPart_def toMapStructure_def json_Marshal_def ExecutableCode_json_def
          omitempty_def a2aDataPartMetaTypeKey_def toMetaKey_def
          a2aDataPartTypeCodeExecutableCode_def)
  have f: "contribution ?ctx ?f
           = [TextPart ''For context:'' None,
              DataPart (Some [(''code'', GStr ''print(1)''), (''language'', GStr ''PYTHON'')])
                (Some [(''adk_type'', GStr ''executable_code'')])]"
    using C6_other_agent_events[OF h1(4) h2(4), of "[]"] cf k4 k5 by blast
  have "lastRemoteResponse (AgentName ?ctx) [?e, ?t, ?n, ?f] (length [?e, ?t, ?n, ?f]) = (- 1, [])"
    using h2 by (intro lastRemoteResponse_none) simp_all
  then show ?thesis
    using e t n f by (simp add: toMissingRemoteSessionParts_def missingParts_contribution)
qed

text \<open>
  The claim as stated fails on a part of another kind: a file part of another agent is
  passed on as a file part after the marker, not as a text line that names the author.
\<close>

theorem C6_counterexample:
  "fst (toMissingRemoteSessionParts (ex_ctx [])
     [newEventFromParts ''another-agent''
        [emptyPart\<lparr>FileData := Some \<lparr>FileData.DisplayName = ''cat.png'',
            FileData.FileURI = ''ftp://cat.com'', FileData.MIMEType = ''image/png''\<rparr>\<rparr>]])
   = [TextPart ''For context:'' None,
      FilePart (FileURI ''cat.png'' ''image/png'' ''ftp://cat.com'') None]"
  by code_simp

section \<open>Client role: the continuation\<close>




lemma last_index: "events \<noteq> [] \<Longrightarrow> events ! (length events - Suc 0) = last events"
  by (simp add: last_conv_nth)





section \<open>Client role: translating inbound events\<close>

text \<open>
  C7, as the code has it. The event made from a message whose parts decode is written by
  the remote agent, whatever the role of the message. The role decides the role of the
  content: user for a user message, model otherwise. Without parts the event has no
  content.
\<close>

theorem C7_message_author:
  assumes "toGenAIParts (Message.Parts m) = Inr ps"
  shows "\<exists>ev. ToSessionEvent (Some ctx) (MessageEvent m) = Ok (Some ev)
    \<and> Author ev = AgentName ctx
    \<and> Content ev =
        (if ps = [] then None
         else Some \<lparr>Content.Parts = ps,
                    Content.Role = (if Message.Role m = MessageRoleUser then RoleUser
                                    else RoleModel)\<rparr>)"
  using assms
  by (simp add: ToSessionEvent_def messageToEvent_def Let_def NewRemoteAgentEvent_def
        NewEvent_def NewContentFromParts_def toGenAIRole_def)

theorem C7_message_author_witness:
  "\<exists>ev. ToSessionEvent (Some (ex_ctx []))
           (MessageEvent (NewMessage MessageRoleAgent [TextPart ''Hello!'' None])) = Ok (Some ev)
    \<and> Author ev = ''remote-agent''
    \<and> Content ev = Some \<lparr>Content.Parts = [NewPartFromText ''Hello!''],
                          Content.Role = RoleModel\<rparr>"
proof -
  have h: "toGenAIParts (Message.Parts (NewMessage MessageRoleAgent [TextPart ''Hello!'' None]))
           = Inr [NewPartFromText ''Hello!'']"
    by (simp add: NewMessage_def toGenAIPart_def)
  show ?thesis
    using C7_message_author[OF h, of "ex_ctx []"]
    by (simp add: ex_ctx_def NewMessage_def MessageRoleAgent_def MessageRoleUser_def)
qed

text \<open>
  The claim as stated fails: the event made from a user message is written by the
  remote agent, not by the user.
\<close>

theorem C7_counterexample:
  "\<exists>ev. ToSessionEvent (Some (ex_ctx []))
           (MessageEvent (NewMessage MessageRoleUser [TextPart ''hi'' None])) = Ok (Some ev)
    \<and> Author ev = ''remote-agent'' \<and> Author ev \<noteq> ''user''"
  by (simp add: ToSessionEvent_def messageToEvent_def Let_def NewRemoteAgentEvent_def
        NewEvent_def NewMessage_def toGenAIPart_def ex_ctx_def)

text \<open>
  C8. A status update that is not final and whose message has no parts makes the
  translation panic: \<^verbatim>\<open>messageToEvent\<close> returns an event without content, and
  \<^verbatim>\<open>ToSessionEvent\<close> reads the parts of that content.
\<close>

theorem C8_empty_status_message_panics:
  assumes "\<not> Final v"
    and "TaskStatus.Message (TaskStatusUpdateEvent.Status v) = Some m"
    and "Message.Parts m = []"
  shows "(\<exists>ev. messageToEvent (Some ctx) (Some m) = Inr (Some ev) \<and> Content ev = None)
    \<and> ToSessionEvent (Some ctx) (StatusUpdate v) = Panic"
  using assms
  by (simp add: ToSessionEvent_def messageToEvent_def Let_def NewRemoteAgentEvent_def
        NewEvent_def)

theorem C8_empty_status_message_panics_witness:
  "ToSessionEvent (Some (ex_ctx [])) (StatusUpdate (ex_statusUpdate [])) = Panic"
proof -
  have h1: "\<not> Final (ex_statusUpdate [])" by (simp add: ex_statusUpdate_def)
  have h2: "TaskStatus.Message (TaskStatusUpdateEvent.Status (ex_statusUpdate []))
            = Some (NewMessage MessageRoleAgent [])"
    by (simp add: ex_statusUpdate_def)
  have h3: "Message.Parts (NewMessage MessageRoleAgent []) = []" by (simp add: NewMessage_def)
  show ?thesis using C8_empty_status_message_panics[OF h1 h2 h3] by blast
qed

section \<open>Client role: resolving the agent card from a file\<close>

text \<open>
  C9. With no card in the configuration and a source that is not an http(s) URL, the
  card is never resolved, whatever the file holds: reading fails, or unmarshalling into
  the nil pointer fails. The run then yields one error event and does nothing but read the
  file: no card is fetched, no client is created, nothing is sent.
\<close>

theorem C9_card_from_file_fails:
  assumes "cfg_AgentCard cfg = None"
    and "\<not> HasPrefix (AgentCardSource cfg) ''http://''"
    and "\<not> HasPrefix (AgentCardSource cfg) ''https://''"
  shows "\<exists>err. resolveAgentCard env cfg = ([ReadCardFile (AgentCardSource cfg)], Inl err)
    \<and> run env ctx cfg
        = Ok ([toErrorEvent ctx (Errorf ''agent card resolution failed: '' err)],
              [ReadCardFile (AgentCardSource cfg)])
    \<and> ErrorMessage (toErrorEvent ctx (Errorf ''agent card resolution failed: '' err)) \<noteq> []"
  using assms
  by (auto simp: resolveAgentCard_def run_def toErrorEvent_def split: sum.splits)

theorem C9_card_from_file_fails_witness:
  "\<exists>err. run (ex_clientEnv (\<lambda>path. Inr ''{}'')) (ex_ctx []) (ex_config ''card.json'')
          = Ok ([toErrorEvent (ex_ctx []) (Errorf ''agent card resolution failed: '' err)],
                [ReadCardFile ''card.json''])"
proof -
  have h1: "cfg_AgentCard (ex_config ''card.json'') = None" by (simp add: ex_config_def)
  have h2: "\<not> HasPrefix (AgentCardSource (ex_config ''card.json'')) ''http://''"
    by (simp add: ex_config_def HasPrefix_def)
  have h3: "\<not> HasPrefix (AgentCardSource (ex_config ''card.json'')) ''https://''"
    by (simp add: ex_config_def HasPrefix_def)
  show ?thesis
    using C9_card_from_file_fails[OF h1 h2 h3, of "ex_clientEnv (\<lambda>path. Inr ''{}'')" "ex_ctx []"]
    by (auto simp: ex_config_def)
qed

section \<open>The part codec: base64\<close>

lemma b64_table:
  "\<forall>n\<in>set [0..<64]. b64val (b64char n) = Some n \<and> b64char n \<noteq> CHR ''=''
     \<and> b64char n \<noteq> CHR 0x0D \<and> b64char n \<noteq> CHR 0x0A"
  by code_simp

lemma b64val_b64char: "n < 64 \<Longrightarrow> b64val (b64char n) = Some n"
  using b64_table by simp

lemma b64char_not_pad: "n < 64 \<Longrightarrow> b64char n \<noteq> CHR ''=''"
  using b64_table by simp

lemma b64char_not_newline:
  "n < 64 \<Longrightarrow> b64char n \<noteq> CHR 0x0D \<and> b64char n \<noteq> CHR 0x0A"
  using b64_table by simp

lemma sextets:
  fixes a b c :: nat
  assumes "a < 256" "b < 256" "c < 256"
  shows "a div 4 < 64" "(a mod 4) * 16 + b div 16 < 64" "(b mod 16) * 4 + c div 64 < 64"
    "c mod 64 < 64" "(a mod 4) * 16 < 64" "(b mod 16) * 4 < 64"
  using assms by auto

lemma div_pack: "(y::nat) < m \<Longrightarrow> (x * m + y) div m = x"
  by simp

lemma mod_pack: "(y::nat) < m \<Longrightarrow> (x * m + y) mod m = y"
  by simp

lemma octets:
  fixes a b c :: nat
  assumes "a < 256" "b < 256" "c < 256"
  shows "(a div 4) * 4 + ((a mod 4) * 16 + b div 16) div 16 = a"
    "(((a mod 4) * 16 + b div 16) mod 16) * 16 + ((b mod 16) * 4 + c div 64) div 4 = b"
    "(((b mod 16) * 4 + c div 64) mod 4) * 64 + c mod 64 = c"
    "(a div 4) * 4 + ((a mod 4) * 16) div 16 = a"
    "(((a mod 4) * 16 + b div 16) mod 16) * 16 + ((b mod 16) * 4) div 4 = b"
proof -
  have b16: "b div 16 < 16" using assms(2) by simp
  have c64: "c div 64 < 4" using assms(3) by simp
  show "(a div 4) * 4 + ((a mod 4) * 16 + b div 16) div 16 = a"
    using div_pack[OF b16, of "a mod 4"] by simp
  show "(((a mod 4) * 16 + b div 16) mod 16) * 16 + ((b mod 16) * 4 + c div 64) div 4 = b"
    using mod_pack[OF b16, of "a mod 4"] div_pack[OF c64, of "b mod 16"] by simp
  show "(((b mod 16) * 4 + c div 64) mod 4) * 64 + c mod 64 = c"
    using mod_pack[OF c64, of "b mod 16"] by simp
  show "(a div 4) * 4 + ((a mod 4) * 16) div 16 = a"
    by simp
  show "(((a mod 4) * 16 + b div 16) mod 16) * 16 + ((b mod 16) * 4) div 4 = b"
    using mod_pack[OF b16, of "a mod 4"] by simp
qed

lemma b64dec_b64enc:
  "\<forall>n\<in>set ns. n < 256 \<Longrightarrow> b64dec (b64enc ns) = Some ns"
proof (induction ns rule: b64enc.induct)
  case 1
  then show ?case by simp
next
  case (2 a)
  then have a: "a < 256" by simp
  show ?case
    using sextets[OF a a a] octets[OF a a a]
    by (simp add: b64val_b64char)
next
  case (3 a b)
  then have a: "a < 256" and b: "b < 256" by simp_all
  show ?case
    using sextets[OF a b b] octets[OF a b b]
    by (simp add: b64val_b64char b64char_not_pad)
next
  case (4 a b c r)
  then have a: "a < 256" and b: "b < 256" and c: "c < 256"
    and r: "b64dec (b64enc r) = Some r" by simp_all
  show ?case
    using sextets[OF a b c] octets[OF a b c] r
    by (simp add: b64val_b64char b64char_not_pad)
qed

lemma b64enc_no_newline:
  "\<forall>n\<in>set ns. n < 256 \<Longrightarrow>
   filter (\<lambda>c. c \<noteq> CHR 0x0D \<and> c \<noteq> CHR 0x0A) (b64enc ns) = b64enc ns"
proof (induction ns rule: b64enc.induct)
  case 1
  then show ?case by simp
next
  case (2 a)
  then have a: "a < 256" by simp
  show ?case using sextets[OF a a a] by (simp add: b64char_not_newline)
next
  case (3 a b)
  then have a: "a < 256" and b: "b < 256" by simp_all
  show ?case using sextets[OF a b b] by (simp add: b64char_not_newline)
next
  case (4 a b c r)
  then have a: "a < 256" and b: "b < 256" and c: "c < 256"
    and r: "filter (\<lambda>c. c \<noteq> CHR 0x0D \<and> c \<noteq> CHR 0x0A) (b64enc r) = b64enc r" by simp_all
  show ?case using sextets[OF a b c] r by (simp add: b64char_not_newline)
qed

lemma unat_byte: "unat (w :: 8 word) < 256"
  using unsigned_less[of w, where 'a = nat] by simp

lemma DecodeString_EncodeToString:
  "DecodeString (EncodeToString src) = Inr (case src of None \<Rightarrow> [] | Some bs \<Rightarrow> bs)"
proof -
  define bs where "bs = (case src of None \<Rightarrow> [] | Some bs \<Rightarrow> bs)"
  have lt: "\<forall>n\<in>set (map unat bs). n < 256" by (simp add: unat_byte)
  have "map of_nat (map unat bs) = bs" by (simp add: map_idI)
  then have "DecodeString (b64enc (map unat bs)) = Inr bs"
    using b64dec_b64enc[OF lt] b64enc_no_newline[OF lt]
    by (simp add: DecodeString_def)
  then show ?thesis
    by (simp add: EncodeToString_def bs_def)
qed

section \<open>The part codec: strings and values that JSON gives back as they are\<close>

lemma utf8_coerce_valid:
  "utf8_valid s \<Longrightarrow> utf8_coerce s = s"
proof (induction s rule: utf8_coerce.induct)
  case (1 s)
  show ?case
  proof (cases "s = []")
    case True
    then show ?thesis by (simp add: utf8_coerce.simps[of "[]"])
  next
    case False
    have v: "rune_len s \<noteq> 0" "utf8_valid (drop (rune_len s) s)"
      using "1.prems" False utf8_valid.simps[of s] by (auto split: if_splits)
    have "utf8_coerce (drop (rune_len s) s) = drop (rune_len s) s"
      using "1.IH"(2)[OF False v(1) v(2)] .
    then show ?thesis
      using False v(1) by (simp add: utf8_coerce.simps[of s])
  qed
qed

lemma utf8_valid_keys:
  "utf8_valid ''id''" "utf8_valid ''args''" "utf8_valid ''name''"
  "utf8_valid ''scheduling''" "utf8_valid ''response''" "utf8_valid ''code''"
  "utf8_valid ''language''" "utf8_valid ''outcome''" "utf8_valid ''output''"
  by code_simp+

lemma json_fixed_ok:
  "json_fixed v \<Longrightarrow> json_ok v"
  by (induction v) auto

lemma json_fixed_roundtrip:
  "json_fixed v \<Longrightarrow> json_decode (json_encode v) = v"
proof (induction v)
  case (GStr s)
  then show ?case by (simp add: utf8_coerce_valid)
next
  case (GList xs)
  then show ?case by (simp add: map_idI)
next
  case (GMap kvs)
  have "map (\<lambda>kv. (fst kv, json_decode (snd kv)))
          (map (\<lambda>kv. (utf8_coerce (fst kv), json_encode (snd kv))) kvs)
        = map (\<lambda>kv. (utf8_coerce (fst kv), json_decode (json_encode (snd kv)))) kvs"
    by simp
  also have "\<dots> = kvs"
    by (rule map_idI) (use GMap in \<open>auto simp: utf8_coerce_valid\<close>)
  finally have "map (\<lambda>kv. (fst kv, json_decode (snd kv)))
          (map (\<lambda>kv. (utf8_coerce (fst kv), json_encode (snd kv))) kvs) = kvs" .
  then show ?case by simp
qed simp_all

text \<open>
  A JSON object whose values come back from \<^verbatim>\<open>json.Unmarshal\<close> and \<^verbatim>\<open>json.Marshal\<close> as
  they are is what marshalling its decoded map writes.
\<close>

lemma json_Marshal_decoded:
  assumes "\<forall>kv\<in>set kvs. utf8_valid (fst kv) \<and> json_ok (json_decode (snd kv))
             \<and> json_encode (json_decode (snd kv)) = snd kv"
  shows "json_Marshal (goval_of_map (Some (map (\<lambda>kv. (fst kv, json_decode (snd kv))) kvs)))
         = Inr (JObject kvs)"
proof -
  have "map (\<lambda>kv. (utf8_coerce (fst kv), json_encode (snd kv)))
          (map (\<lambda>kv. (fst kv, json_decode (snd kv))) kvs)
        = map (\<lambda>kv. (utf8_coerce (fst kv), json_encode (json_decode (snd kv)))) kvs"
    by simp
  also have "\<dots> = kvs"
    by (rule map_idI) (use assms in \<open>auto simp: utf8_coerce_valid\<close>)
  finally have "map (\<lambda>kv. (utf8_coerce (fst kv), json_encode (snd kv)))
          (map (\<lambda>kv. (fst kv, json_decode (snd kv))) kvs) = kvs" .
  moreover have "json_ok (GMap (map (\<lambda>kv. (fst kv, json_decode (snd kv))) kvs))"
    using assms by simp
  ultimately show ?thesis
    by (simp add: json_Marshal_def goval_of_map_def)
qed

lemma stable_string:
  "utf8_valid s \<Longrightarrow>
   json_ok (json_decode (JString s)) \<and> json_encode (json_decode (JString s)) = JString s"
  by (simp add: utf8_coerce_valid)

lemma stable_fixed:
  "json_fixed v \<Longrightarrow>
   json_ok (json_decode (json_encode v))
   \<and> json_encode (json_decode (json_encode v)) = json_encode v"
  by (simp add: json_fixed_roundtrip json_fixed_ok)

lemma map_json_fixed:
  "map_fixed m \<Longrightarrow>
   map_json m = Inr (case m of None \<Rightarrow> JNull | Some kvs \<Rightarrow> json_encode (GMap kvs))"
  by (cases m) (simp_all add: map_json_def map_fixed_def json_Marshal_def json_fixed_ok)

lemma omitempty_subset:
  "set (omitempty kvs) \<subseteq> set kvs"
  by (simp add: omitempty_def)

lemma toMapStructure_object:
  "toMapStructure (Inr (JObject kvs))
   = Inr (Some (map (\<lambda>kv. (fst kv, json_decode (snd kv))) kvs))"
  by (simp add: toMapStructure_def)

section \<open>The part codec: JSON objects of the structs\<close>

lemma FunctionCall_object:
  assumes "utf8_valid (FunctionCall.ID c)" "utf8_valid (FunctionCall.Name c)"
    "map_fixed (Args c)"
  shows "\<exists>kvs. FunctionCall_json c = Inr (JObject kvs)
    \<and> (\<forall>kv\<in>set kvs. utf8_valid (fst kv) \<and> json_ok (json_decode (snd kv))
          \<and> json_encode (json_decode (snd kv)) = snd kv)
    \<and> FunctionCall_of_json (JObject kvs) = Inr c"
proof -
  define a where "a = (case Args c of None \<Rightarrow> JNull | Some m \<Rightarrow> json_encode (GMap m))"
  define fields where "fields = [(''id'', JString (FunctionCall.ID c)), (''args'', a),
                           (''name'', JString (FunctionCall.Name c))]"
  have enc: "FunctionCall_json c = Inr (JObject (omitempty fields))"
    using assms
    by (simp add: FunctionCall_json_def map_json_fixed utf8_coerce_valid a_def fields_def)
  have sa: "json_ok (json_decode a) \<and> json_encode (json_decode a) = a"
  proof (cases "Args c")
    case None
    then show ?thesis by (simp add: a_def)
  next
    case (Some m)
    then have "json_fixed (GMap m)" using assms(3) by (simp add: map_fixed_def)
    then show ?thesis using stable_fixed[of "GMap m"] Some by (simp add: a_def)
  qed
  have "\<forall>kv\<in>set fields. utf8_valid (fst kv) \<and> json_ok (json_decode (snd kv))
          \<and> json_encode (json_decode (snd kv)) = snd kv"
    using assms(1,2) sa stable_string utf8_valid_keys by (simp add: fields_def)
  then have st: "\<forall>kv\<in>set (omitempty fields). utf8_valid (fst kv)
          \<and> json_ok (json_decode (snd kv)) \<and> json_encode (json_decode (snd kv)) = snd kv"
    using omitempty_subset[of fields] by blast
  have dec: "FunctionCall_of_json (JObject (omitempty fields)) = Inr c"
  proof (cases "Args c")
    case None
    then show ?thesis
      by (cases c)
         (auto simp: fields_def a_def FunctionCall_of_json_def omitempty_def json_object_def
            string_field_def map_field_def)
  next
    case (Some m)
    then have m: "m \<noteq> []" "json_fixed (GMap m)" using assms(3) by (simp_all add: map_fixed_def)
    have "json_decode (json_encode (GMap m)) = GMap m"
      using json_fixed_roundtrip[OF m(2)] .
    then have bk: "map (\<lambda>kv. (fst kv, json_decode (snd kv)))
             (map (\<lambda>kv. (utf8_coerce (fst kv), json_encode (snd kv))) m) = m"
      by simp
    show ?thesis
      using Some m(1) bk
      by (cases c)
         (auto simp: fields_def a_def FunctionCall_of_json_def omitempty_def json_object_def
            string_field_def map_field_def)
  qed
  show ?thesis using enc st dec by blast
qed

lemma FunctionResponse_object:
  assumes "utf8_valid (FunctionResponse.ID r)" "utf8_valid (FunctionResponse.Name r)"
    "utf8_valid (Scheduling r)" "map_fixed (Response r)"
  shows "\<exists>kvs. FunctionResponse_json r = Inr (JObject kvs)
    \<and> (\<forall>kv\<in>set kvs. utf8_valid (fst kv) \<and> json_ok (json_decode (snd kv))
          \<and> json_encode (json_decode (snd kv)) = snd kv)
    \<and> FunctionResponse_of_json (JObject kvs) = Inr r"
proof -
  define a where "a = (case Response r of None \<Rightarrow> JNull | Some m \<Rightarrow> json_encode (GMap m))"
  define fields where "fields = [(''scheduling'', JString (Scheduling r)),
                           (''id'', JString (FunctionResponse.ID r)),
                           (''name'', JString (FunctionResponse.Name r)), (''response'', a)]"
  have enc: "FunctionResponse_json r = Inr (JObject (omitempty fields))"
    using assms
    by (simp add: FunctionResponse_json_def map_json_fixed utf8_coerce_valid a_def fields_def)
  have sa: "json_ok (json_decode a) \<and> json_encode (json_decode a) = a"
  proof (cases "Response r")
    case None
    then show ?thesis by (simp add: a_def)
  next
    case (Some m)
    then have "json_fixed (GMap m)" using assms(4) by (simp add: map_fixed_def)
    then show ?thesis using stable_fixed[of "GMap m"] Some by (simp add: a_def)
  qed
  have "\<forall>kv\<in>set fields. utf8_valid (fst kv) \<and> json_ok (json_decode (snd kv))
          \<and> json_encode (json_decode (snd kv)) = snd kv"
    using assms(1,2,3) sa stable_string utf8_valid_keys by (simp add: fields_def)
  then have st: "\<forall>kv\<in>set (omitempty fields). utf8_valid (fst kv)
          \<and> json_ok (json_decode (snd kv)) \<and> json_encode (json_decode (snd kv)) = snd kv"
    using omitempty_subset[of fields] by blast
  have dec: "FunctionResponse_of_json (JObject (omitempty fields)) = Inr r"
  proof (cases "Response r")
    case None
    then show ?thesis
      by (cases r)
         (auto simp: fields_def a_def FunctionResponse_of_json_def omitempty_def json_object_def
            string_field_def map_field_def)
  next
    case (Some m)
    then have m: "m \<noteq> []" "json_fixed (GMap m)" using assms(4) by (simp_all add: map_fixed_def)
    have "json_decode (json_encode (GMap m)) = GMap m"
      using json_fixed_roundtrip[OF m(2)] .
    then have bk: "map (\<lambda>kv. (fst kv, json_decode (snd kv)))
             (map (\<lambda>kv. (utf8_coerce (fst kv), json_encode (snd kv))) m) = m"
      by simp
    show ?thesis
      using Some m(1) bk
      by (cases r)
         (auto simp: fields_def a_def FunctionResponse_of_json_def omitempty_def json_object_def
            string_field_def map_field_def)
  qed
  show ?thesis using enc st dec by blast
qed

lemma ExecutableCode_object:
  assumes "utf8_valid (Code c)" "utf8_valid (Language c)"
  shows "\<exists>kvs. ExecutableCode_json c = Inr (JObject kvs)
    \<and> (\<forall>kv\<in>set kvs. utf8_valid (fst kv) \<and> json_ok (json_decode (snd kv))
          \<and> json_encode (json_decode (snd kv)) = snd kv)
    \<and> ExecutableCode_of_json (JObject kvs) = Inr c"
proof -
  define fields where "fields = [(''code'', JString (Code c)), (''language'', JString (Language c))]"
  have enc: "ExecutableCode_json c = Inr (JObject (omitempty fields))"
    using assms by (simp add: ExecutableCode_json_def utf8_coerce_valid fields_def)
  have "\<forall>kv\<in>set fields. utf8_valid (fst kv) \<and> json_ok (json_decode (snd kv))
          \<and> json_encode (json_decode (snd kv)) = snd kv"
    using assms stable_string utf8_valid_keys by (simp add: fields_def)
  then have st: "\<forall>kv\<in>set (omitempty fields). utf8_valid (fst kv)
          \<and> json_ok (json_decode (snd kv)) \<and> json_encode (json_decode (snd kv)) = snd kv"
    using omitempty_subset[of fields] by blast
  have dec: "ExecutableCode_of_json (JObject (omitempty fields)) = Inr c"
    by (cases c)
       (auto simp: fields_def ExecutableCode_of_json_def omitempty_def json_object_def
          string_field_def)
  show ?thesis using enc st dec by blast
qed

lemma CodeExecutionResult_object:
  assumes "utf8_valid (Outcome r)" "utf8_valid (Output r)"
  shows "\<exists>kvs. CodeExecutionResult_json r = Inr (JObject kvs)
    \<and> (\<forall>kv\<in>set kvs. utf8_valid (fst kv) \<and> json_ok (json_decode (snd kv))
          \<and> json_encode (json_decode (snd kv)) = snd kv)
    \<and> CodeExecutionResult_of_json (JObject kvs) = Inr r"
proof -
  define fields where "fields = [(''outcome'', JString (Outcome r)), (''output'', JString (Output r))]"
  have enc: "CodeExecutionResult_json r = Inr (JObject (omitempty fields))"
    using assms by (simp add: CodeExecutionResult_json_def utf8_coerce_valid fields_def)
  have "\<forall>kv\<in>set fields. utf8_valid (fst kv) \<and> json_ok (json_decode (snd kv))
          \<and> json_encode (json_decode (snd kv)) = snd kv"
    using assms stable_string utf8_valid_keys by (simp add: fields_def)
  then have st: "\<forall>kv\<in>set (omitempty fields). utf8_valid (fst kv)
          \<and> json_ok (json_decode (snd kv)) \<and> json_encode (json_decode (snd kv)) = snd kv"
    using omitempty_subset[of fields] by blast
  have dec: "CodeExecutionResult_of_json (JObject (omitempty fields)) = Inr r"
    by (cases r)
       (auto simp: fields_def CodeExecutionResult_of_json_def omitempty_def json_object_def
          string_field_def)
  show ?thesis using enc st dec by blast
qed

section \<open>The part codec: round trip\<close>

lemma getLongRunningToolIDs_Cons:
  "getLongRunningToolIDs (w # ws) (p # ps)
   = getLongRunningToolIDs [w] [p] @ getLongRunningToolIDs ws ps"
proof (cases w)
  case (DataPart d md)
  then show ?thesis
    by (cases md)
       (auto split: option.splits goval.splits bool.splits)
qed simp_all

lemma roundtrip_text:
  "t \<noteq> [] \<Longrightarrow>
   \<exists>w. toA2APart (part_of (TextKind t th)) ids = Inr w
     \<and> toGenAIPart w = Inr (part_of (TextKind t th))
     \<and> getLongRunningToolIDs [w] [part_of (TextKind t th)] = []"
  by (simp add: toA2APart_def toGenAIPart_def emptyPart_def NewPartFromText_def)

lemma roundtrip_inline:
  "Data b \<noteq> None \<Longrightarrow>
   \<exists>w. toA2APart (part_of (InlineFileKind b)) ids = Inr w
     \<and> toGenAIPart w = Inr (part_of (InlineFileKind b))
     \<and> getLongRunningToolIDs [w] [part_of (InlineFileKind b)] = []"
  by (cases b)
     (auto simp add: toA2APart_def toA2AFilePart_def toGenAIPart_def toGenAIFilePart_def
        emptyPart_def DecodeString_EncodeToString)

lemma roundtrip_uri:
  "\<exists>w. toA2APart (part_of (URIFileKind f)) ids = Inr w
     \<and> toGenAIPart w = Inr (part_of (URIFileKind f))
     \<and> getLongRunningToolIDs [w] [part_of (URIFileKind f)] = []"
  by (simp add: toA2APart_def toA2AFilePart_def toGenAIPart_def toGenAIFilePart_def
        emptyPart_def)

lemma type_keys_distinct:
  "a2aDataPartMetaTypeKey \<noteq> a2aDataPartMetaLongRunningKey"
  "a2aDataPartTypeFunctionCall \<noteq> a2aDataPartTypeCodeExecResult"
  "a2aDataPartTypeCodeExecutableCode \<noteq> a2aDataPartTypeCodeExecResult"
  "a2aDataPartTypeCodeExecutableCode \<noteq> a2aDataPartTypeFunctionCall"
  "a2aDataPartTypeFunctionResponse \<noteq> a2aDataPartTypeCodeExecResult"
  "a2aDataPartTypeFunctionResponse \<noteq> a2aDataPartTypeFunctionCall"
  "a2aDataPartTypeFunctionResponse \<noteq> a2aDataPartTypeCodeExecutableCode"
  by (simp_all add: a2aDataPartMetaTypeKey_def a2aDataPartMetaLongRunningKey_def
        toMetaKey_def a2aDataPartTypeFunctionCall_def a2aDataPartTypeCodeExecResult_def
        a2aDataPartTypeCodeExecutableCode_def a2aDataPartTypeFunctionResponse_def)

lemma roundtrip_call:
  assumes "preserved (FunctionCallKind c)"
  shows "\<exists>w. toA2APart (part_of (FunctionCallKind c)) ids = Inr w
     \<and> toGenAIPart w = Inr (part_of (FunctionCallKind c))
     \<and> getLongRunningToolIDs [w] [part_of (FunctionCallKind c)]
       = (if FunctionCall.ID c \<in> set ids then [FunctionCall.ID c] else [])"
proof -
  obtain kvs where kvs: "FunctionCall_json c = Inr (JObject kvs)"
    and st: "\<forall>kv\<in>set kvs. utf8_valid (fst kv) \<and> json_ok (json_decode (snd kv))
               \<and> json_encode (json_decode (snd kv)) = snd kv"
    and dec: "FunctionCall_of_json (JObject kvs) = Inr c"
    using FunctionCall_object[of c] assms by auto
  show ?thesis
    using kvs toMapStructure_object[of kvs] json_Marshal_decoded[OF st] dec type_keys_distinct
    by (simp add: toA2APart_def toA2ADataPart_def toGenAIPart_def toGenAIDataPart_def
          emptyPart_def)
qed

lemma roundtrip_response:
  assumes "preserved (FunctionResponseKind r)"
  shows "\<exists>w. toA2APart (part_of (FunctionResponseKind r)) ids = Inr w
     \<and> toGenAIPart w = Inr (part_of (FunctionResponseKind r))
     \<and> getLongRunningToolIDs [w] [part_of (FunctionResponseKind r)] = []"
proof -
  obtain kvs where kvs: "FunctionResponse_json r = Inr (JObject kvs)"
    and st: "\<forall>kv\<in>set kvs. utf8_valid (fst kv) \<and> json_ok (json_decode (snd kv))
               \<and> json_encode (json_decode (snd kv)) = snd kv"
    and dec: "FunctionResponse_of_json (JObject kvs) = Inr r"
    using FunctionResponse_object[of r] assms by auto
  show ?thesis
    using kvs toMapStructure_object[of kvs] json_Marshal_decoded[OF st] dec type_keys_distinct
    by (simp add: toA2APart_def toA2ADataPart_def toGenAIPart_def toGenAIDataPart_def
          emptyPart_def)
qed

lemma roundtrip_code:
  assumes "preserved (ExecutableCodeKind c)"
  shows "\<exists>w. toA2APart (part_of (ExecutableCodeKind c)) ids = Inr w
     \<and> toGenAIPart w = Inr (part_of (ExecutableCodeKind c))
     \<and> getLongRunningToolIDs [w] [part_of (ExecutableCodeKind c)] = []"
proof -
  obtain kvs where kvs: "ExecutableCode_json c = Inr (JObject kvs)"
    and st: "\<forall>kv\<in>set kvs. utf8_valid (fst kv) \<and> json_ok (json_decode (snd kv))
               \<and> json_encode (json_decode (snd kv)) = snd kv"
    and dec: "ExecutableCode_of_json (JObject kvs) = Inr c"
    using ExecutableCode_object[of c] assms by auto
  show ?thesis
    using kvs toMapStructure_object[of kvs] json_Marshal_decoded[OF st] dec type_keys_distinct
    by (simp add: toA2APart_def toA2ADataPart_def toGenAIPart_def toGenAIDataPart_def
          emptyPart_def)
qed

lemma roundtrip_result:
  assumes "preserved (CodeExecutionResultKind r)"
  shows "\<exists>w. toA2APart (part_of (CodeExecutionResultKind r)) ids = Inr w
     \<and> toGenAIPart w = Inr (part_of (CodeExecutionResultKind r))
     \<and> getLongRunningToolIDs [w] [part_of (CodeExecutionResultKind r)] = []"
proof -
  obtain kvs where kvs: "CodeExecutionResult_json r = Inr (JObject kvs)"
    and st: "\<forall>kv\<in>set kvs. utf8_valid (fst kv) \<and> json_ok (json_decode (snd kv))
               \<and> json_encode (json_decode (snd kv)) = snd kv"
    and dec: "CodeExecutionResult_of_json (JObject kvs) = Inr r"
    using CodeExecutionResult_object[of r] assms by auto
  show ?thesis
    using kvs toMapStructure_object[of kvs] json_Marshal_decoded[OF st] dec type_keys_distinct
    by (simp add: toA2APart_def toA2ADataPart_def toGenAIPart_def toGenAIDataPart_def
          emptyPart_def)
qed

lemma roundtrip_one:
  "preserved k \<Longrightarrow>
   \<exists>w. toA2APart (part_of k) ids = Inr w \<and> toGenAIPart w = Inr (part_of k)
     \<and> getLongRunningToolIDs [w] [part_of k] = longRunningCalls [k] ids"
proof (cases k)
  case (TextKind t th)
  assume "preserved k"
  then show ?thesis using TextKind roundtrip_text[of t th ids] by simp
next
  case (InlineFileKind b)
  assume "preserved k"
  then show ?thesis using InlineFileKind roundtrip_inline[of b ids] by simp
next
  case (URIFileKind f)
  then show ?thesis using roundtrip_uri[of f ids] by simp
next
  case (FunctionCallKind c)
  assume "preserved k"
  then show ?thesis using FunctionCallKind roundtrip_call[of c ids] by auto
next
  case (FunctionResponseKind r)
  assume "preserved k"
  then show ?thesis using FunctionResponseKind roundtrip_response[of r ids] by simp
next
  case (ExecutableCodeKind c)
  assume "preserved k"
  then show ?thesis using ExecutableCodeKind roundtrip_code[of c ids] by simp
next
  case (CodeExecutionResultKind r)
  assume "preserved k"
  then show ?thesis using CodeExecutionResultKind roundtrip_result[of r ids] by simp
qed

lemma longRunningCalls_Cons:
  "longRunningCalls (k # ks) ids = longRunningCalls [k] ids @ longRunningCalls ks ids"
  by (cases k) simp_all

text \<open>
  C2, as the code has it. For parts with exactly one of the seven cases populated, where a
  text part has text, a file part has no video metadata, the bytes of an inline file are
  not a nil slice, the strings of a function call,
  a function response, executable code and a code-execution result are well-formed UTF-8,
  and the arguments of a function call and the payload of a function response are nil or
  have an entry and hold only values that JSON gives back as they are: encoding with any
  set of long-running IDs succeeds, decoding the result gives back the parts, and the
  long-running IDs read from the wire parts are those of the function calls in the set.
\<close>

theorem C2_roundtrip:
  assumes "\<forall>k\<in>set ks. preserved k"
  shows "\<exists>ws. toA2AParts (map part_of ks) ids = Inr ws
    \<and> toGenAIParts ws = Inr (map part_of ks)
    \<and> getLongRunningToolIDs ws (map part_of ks) = longRunningCalls ks ids"
  using assms
proof (induction ks)
  case Nil
  then show ?case by simp
next
  case (Cons k ks)
  then obtain ws where ws: "toA2AParts (map part_of ks) ids = Inr ws"
    "toGenAIParts ws = Inr (map part_of ks)"
    "getLongRunningToolIDs ws (map part_of ks) = longRunningCalls ks ids"
    by auto
  have "preserved k" using Cons.prems by simp
  then obtain w where w: "toA2APart (part_of k) ids = Inr w"
    "toGenAIPart w = Inr (part_of k)"
    "getLongRunningToolIDs [w] [part_of k] = longRunningCalls [k] ids"
    using roundtrip_one by blast
  have "toA2AParts (map part_of (k # ks)) ids = Inr (w # ws)"
    using w(1) ws(1) by simp
  moreover have "toGenAIParts (w # ws) = Inr (map part_of (k # ks))"
    using w(2) ws(2) by simp
  moreover have "getLongRunningToolIDs (w # ws) (map part_of (k # ks))
                 = longRunningCalls (k # ks) ids"
    using getLongRunningToolIDs_Cons[of w ws "part_of k" "map part_of ks"]
      longRunningCalls_Cons[of k ks ids] w(3) ws(3)
    by simp
  ultimately show ?case by blast
qed

theorem C2_roundtrip_witness:
  "\<exists>ws. toA2AParts
          [emptyPart\<lparr>Text := ''Hello'', Thought := True\<rparr>,
           emptyPart\<lparr>InlineData := Some \<lparr>Blob.DisplayName = ''cat.jpeg'', Data = Some [0xFF],
                                          Blob.MIMEType = ''image/jpeg''\<rparr>\<rparr>,
           emptyPart\<lparr>FunctionCall := Some \<lparr>FunctionCall.ID = ''get_weather'',
                                            Args = Some [(''city'', GStr ''Warsaw''),
                                                         (''days'', GFloat (Float64 False 3 0))],
                                            FunctionCall.Name = ''GetWeather''\<rparr>\<rparr>]
          [''get_weather''] = Inr ws
    \<and> toGenAIParts ws = Inr
          [emptyPart\<lparr>Text := ''Hello'', Thought := True\<rparr>,
           emptyPart\<lparr>InlineData := Some \<lparr>Blob.DisplayName = ''cat.jpeg'', Data = Some [0xFF],
                                          Blob.MIMEType = ''image/jpeg''\<rparr>\<rparr>,
           emptyPart\<lparr>FunctionCall := Some \<lparr>FunctionCall.ID = ''get_weather'',
                                            Args = Some [(''city'', GStr ''Warsaw''),
                                                         (''days'', GFloat (Float64 False 3 0))],
                                            FunctionCall.Name = ''GetWeather''\<rparr>\<rparr>]"
proof -
  let ?ks = "[TextKind ''Hello'' True,
              InlineFileKind \<lparr>Blob.DisplayName = ''cat.jpeg'', Data = Some [0xFF],
                              Blob.MIMEType = ''image/jpeg''\<rparr>,
              FunctionCallKind \<lparr>FunctionCall.ID = ''get_weather'',
                                Args = Some [(''city'', GStr ''Warsaw''),
                                             (''days'', GFloat (Float64 False 3 0))],
                                FunctionCall.Name = ''GetWeather''\<rparr>]"
  have h: "\<forall>k\<in>set ?ks. preserved k" by code_simp
  show ?thesis using C2_roundtrip[OF h, of "[''get_weather'']"] by auto
qed

text \<open>
  The claim as stated fails. A text part without text comes back as the text \<open>{}\<close>
  without the thought flag. A function call whose arguments hold a value JSON cannot
  encode is not encoded at all. The video metadata of an inline file is written to the
  wire part and not read back, and that of a URI file is not written. An inline file
  whose bytes are a nil slice comes back with a slice that is not nil. An integer among
  the arguments of a function call comes back as a float64, a map of arguments without
  entries comes back as nil, and a name that is not well-formed UTF-8 comes back with
  U+FFFD in the place of the ill-formed byte.
\<close>

theorem C2_counterexample:
  "toA2AParts [part_of (TextKind [] True)] [] = Inr [DataPart (Some []) None]
   \<and> toGenAIParts [DataPart (Some []) None] = Inr [NewPartFromText ''{}'']
   \<and> NewPartFromText ''{}'' \<noteq> part_of (TextKind [] True)
   \<and> toA2AParts
        [part_of (FunctionCallKind \<lparr>FunctionCall.ID = ''call-2'', Args = Some [(''ratio'', GNaN)],
                                    FunctionCall.Name = ''scale''\<rparr>)] []
      = Inl (Error ''json: unsupported value: NaN'')
   \<and> toA2AParts
        [emptyPart\<lparr>InlineData := Some \<lparr>Blob.DisplayName = ''cat.mp4'', Data = Some [0xFF],
                                       Blob.MIMEType = ''video/mp4''\<rparr>,
                   VideoMetadata := Some [(''fps'', JFloat (Float64 False 5 0))]\<rparr>] []
      = Inr [FilePart (FileBytes ''cat.mp4'' ''video/mp4'' ''/w=='')
               (Some [(''video_metadata'', GMap [(''fps'', GFloat (Float64 False 5 0))])])]
   \<and> toGenAIParts
        [FilePart (FileBytes ''cat.mp4'' ''video/mp4'' ''/w=='')
           (Some [(''video_metadata'', GMap [(''fps'', GFloat (Float64 False 5 0))])])]
      = Inr [emptyPart\<lparr>InlineData := Some \<lparr>Blob.DisplayName = ''cat.mp4'', Data = Some [0xFF],
                                            Blob.MIMEType = ''video/mp4''\<rparr>\<rparr>]
   \<and> toA2AParts
        [emptyPart\<lparr>FileData := Some \<lparr>FileData.DisplayName = ''cat.mp4'',
                                     FileData.FileURI = ''gs://bucket/cat.mp4'',
                                     FileData.MIMEType = ''video/mp4''\<rparr>,
                   VideoMetadata := Some [(''fps'', JFloat (Float64 False 5 0))]\<rparr>] []
      = Inr [FilePart (FileURI ''cat.mp4'' ''video/mp4'' ''gs://bucket/cat.mp4'') None]
   \<and> toGenAIParts [FilePart (FileURI ''cat.mp4'' ''video/mp4'' ''gs://bucket/cat.mp4'') None]
      = Inr [emptyPart\<lparr>FileData := Some \<lparr>FileData.DisplayName = ''cat.mp4'',
                                           FileData.FileURI = ''gs://bucket/cat.mp4'',
                                           FileData.MIMEType = ''video/mp4''\<rparr>\<rparr>]
   \<and> toA2AParts
        [part_of (InlineFileKind \<lparr>Blob.DisplayName = ''empty.bin'', Data = None,
                                  Blob.MIMEType = ''application/octet-stream''\<rparr>)] []
      = Inr [FilePart (FileBytes ''empty.bin'' ''application/octet-stream'' []) None]
   \<and> toGenAIParts [FilePart (FileBytes ''empty.bin'' ''application/octet-stream'' []) None]
      = Inr [part_of (InlineFileKind \<lparr>Blob.DisplayName = ''empty.bin'', Data = Some [],
                                         Blob.MIMEType = ''application/octet-stream''\<rparr>)]
   \<and> toA2AParts
        [part_of (FunctionCallKind \<lparr>FunctionCall.ID = ''call-3'', Args = Some [(''n'', GInt 3)],
                                    FunctionCall.Name = ''repeat''\<rparr>)] []
      = Inr [DataPart
               (Some [(''id'', GStr ''call-3''),
                      (''args'', GMap [(''n'', GFloat (Float64 False 3 0))]),
                      (''name'', GStr ''repeat'')])
               (Some [(''adk_type'', GStr ''function_call''),
                      (''adk_is_long_running'', GBool False)])]
   \<and> toGenAIParts
        [DataPart
           (Some [(''id'', GStr ''call-3''),
                  (''args'', GMap [(''n'', GFloat (Float64 False 3 0))]),
                  (''name'', GStr ''repeat'')])
           (Some [(''adk_type'', GStr ''function_call''),
                  (''adk_is_long_running'', GBool False)])]
      = Inr [part_of (FunctionCallKind
               \<lparr>FunctionCall.ID = ''call-3'',
                Args = Some [(''n'', GFloat (Float64 False 3 0))],
                FunctionCall.Name = ''repeat''\<rparr>)]
   \<and> toA2AParts
        [part_of (FunctionCallKind \<lparr>FunctionCall.ID = ''call-4'', Args = Some [],
                                    FunctionCall.Name = [CHR 0xFF]\<rparr>)] []
      = Inr [DataPart
               (Some [(''id'', GStr ''call-4''), (''name'', GStr [CHR 0xEF, CHR 0xBF, CHR 0xBD])])
               (Some [(''adk_type'', GStr ''function_call''),
                      (''adk_is_long_running'', GBool False)])]
   \<and> toGenAIParts
        [DataPart
           (Some [(''id'', GStr ''call-4''), (''name'', GStr [CHR 0xEF, CHR 0xBF, CHR 0xBD])])
           (Some [(''adk_type'', GStr ''function_call''),
                  (''adk_is_long_running'', GBool False)])]
      = Inr [part_of (FunctionCallKind
               \<lparr>FunctionCall.ID = ''call-4'', Args = None,
                FunctionCall.Name = [CHR 0xEF, CHR 0xBF, CHR 0xBD]\<rparr>)]"
  by code_simp

end
